theory Spec2Isabelle
  imports Complex_Main "HOL-Library.Word"
begin

section \<open>Wire data\<close>

text \<open>
  The connection runner of \<^verbatim>\<open>internal/clientconn/conn.go\<close> and the contract wrapper
  of \<^verbatim>\<open>internal/backends/collection.go\<close>. The packages \<^verbatim>\<open>wire\<close>,
  \<^verbatim>\<open>types\<close>, \<^verbatim>\<open>commonerrors\<close>, \<^verbatim>\<open>commoncommands\<close> and \<^verbatim>\<open>proxy\<close> are used by
  these files but are not among the sources; what the runner needs of them is either
  an input of the model (what a read returns, what the upstream answers, whether a write
  fails, how a body is marshalled, what a handler does) or a definition marked
  "Modelled from the spec".
\<close>

type_synonym int32 = "32 word"
type_synonym byte = "8 word"

text \<open>
  \<^verbatim>\<open>wire.OpCode\<close> is an int32 with named constants. \<open>OpCodeOther n\<close> is a value \<open>n\<close>
  that is none of the named constants; the zero value of the type, which
  \<^verbatim>\<open>new(wire.MsgHeader)\<close> holds, is \<open>OpCodeOther 0\<close>.
\<close>

datatype OpCode =
    OpCodeReply
  | OpCodeUpdate
  | OpCodeInsert
  | OpCodeGetByOID
  | OpCodeQuery
  | OpCodeGetMore
  | OpCodeDelete
  | OpCodeKillCursors
  | OpCodeCompressed
  | OpCodeMsg
  | OpCodeOther int

record MsgHeader =
  MessageLength :: int32
  RequestID :: int32
  ResponseTo :: int32
  OpCode :: OpCode

text \<open>
  Modelled from the spec: \<^verbatim>\<open>wire.MsgHeaderLen\<close>. The header is four int32 fields
  (messageLength, requestID, responseTo, opCode), so its length is 16 bytes.
\<close>

definition MsgHeaderLen :: nat where
  "MsgHeaderLen = 16"

definition zero_MsgHeader :: MsgHeader where
  "zero_MsgHeader =
     \<lparr>MessageLength = 0, RequestID = 0, ResponseTo = 0, OpCode = OpCodeOther 0\<rparr>"

text \<open>
  Modelled from the spec: the document model of package \<^verbatim>\<open>types\<close>. A document is an
  ordered sequence of (key, typed value) pairs and may be marked frozen.
\<close>

datatype bson =
    VDouble real
  | VString string
  | VDocument "(string \<times> bson) list"
  | VArray "bson list"
  | VBinary byte "byte list"
  | VObjectID "byte list"
  | VBool bool
  | VDateTime "64 word"
  | VNull
  | VRegex string string
  | VTimestamp int32 int32
  | VInt32 int32
  | VInt64 "64 word"

record Document =
  doc_fields :: "(string \<times> bson) list"
  frozen :: bool

text \<open>Modelled from the spec: the command name is the key of the first field.\<close>

definition Command :: "Document \<Rightarrow> string" where
  "Command d = (case doc_fields d of [] \<Rightarrow> [] | (k, v) # rest \<Rightarrow> k)"

text \<open>\<^verbatim>\<open>doc.Get("ok")\<close>: the value of the first field with that key, if any.\<close>

definition Get :: "Document \<Rightarrow> string \<Rightarrow> bson option" where
  "Get d k = map_of (doc_fields d) k"

text \<open>
  Modelled from the spec: \<^verbatim>\<open>wire.OpMsg\<close>, a flags field plus an ordered sequence of
  sections, each of kind 0 (exactly one document) or kind 1 (a named sequence of
  documents). A well-formed message has exactly one kind-0 section, and
  \<^verbatim>\<open>OpMsg.Document\<close> returns its document.
\<close>

record OpMsgSection =
  Kind :: byte
  Identifier :: string
  Documents :: "Document list"

record OpMsg =
  FlagBits :: "32 word"
  sections :: "OpMsgSection list"

record OpQuery =
  FullCollectionName :: string
  query :: Document

record OpReply =
  reply_documents :: "Document list"

datatype MsgBody = BodyMsg OpMsg | BodyQuery OpQuery | BodyReply OpReply

section \<open>Errors\<close>

text \<open>
  Modelled from the spec: the error taxonomy of \<^verbatim>\<open>commonerrors\<close> and \<^verbatim>\<open>wire\<close>.
  Error codes carry a number and a name; the spec gives 59 and "CommandNotFound" for
  the missing command. Every error document has \<open>ok: 0.0\<close>, a code, a codeName and an
  errmsg. A validation error carries the code and message of its document; write errors
  carry their document as it is. \<open>ErrUnhandledOpCode\<close> and \<open>ErrUnexpectedOpCode\<close> are the
  two errors that \<^verbatim>\<open>route\<close> makes with \<^verbatim>\<open>lazyerrors.Errorf\<close>; \<open>ErrorString\<close> is any
  other error, with its text.
\<close>

datatype ErrorCode = ErrInternalError | ErrCommandNotFound | ErrOtherCode int32 string

fun code_number :: "ErrorCode \<Rightarrow> int32" where
  "code_number ErrInternalError = 1"
| "code_number ErrCommandNotFound = 59"
| "code_number (ErrOtherCode n s) = n"

fun code_name :: "ErrorCode \<Rightarrow> string" where
  "code_name ErrInternalError = ''InternalError''"
| "code_name ErrCommandNotFound = ''CommandNotFound''"
| "code_name (ErrOtherCode n s) = s"

datatype error =
    ErrZeroRead
  | ValidationError ErrorCode string
  | CommandError ErrorCode string
  | WriteErrors Document
  | ErrUnhandledOpCode OpCode
  | ErrUnexpectedOpCode OpCode
  | ErrorString string

text \<open>\<^verbatim>\<open>errors.As(err, &validationErr)\<close> for a \<^verbatim>\<open>*wire.ValidationError\<close>.\<close>

fun is_validation :: "error \<Rightarrow> bool" where
  "is_validation (ValidationError code m) = True"
| "is_validation err = False"

datatype ProtoErr = ProtoCommandError ErrorCode string | ProtoWriteErrors Document

text \<open>
  Modelled from the spec: \<^verbatim>\<open>commonerrors.ProtocolError\<close> renders any error as a command
  error or as write errors; unknown errors become a generic InternalError.
\<close>

fun error_text :: "error \<Rightarrow> string" where
  "error_text ErrZeroRead = ''zero bytes read''"
| "error_text (ValidationError c m) = m"
| "error_text (CommandError c m) = m"
| "error_text (WriteErrors d) = ''write errors''"
| "error_text (ErrUnhandledOpCode opcode) = ''unhandled OpCode''"
| "error_text (ErrUnexpectedOpCode opcode) = ''unexpected OpCode''"
| "error_text (ErrorString m) = m"

fun ProtocolError :: "error \<Rightarrow> ProtoErr" where
  "ProtocolError (CommandError c m) = ProtoCommandError c m"
| "ProtocolError (WriteErrors d) = ProtoWriteErrors d"
| "ProtocolError (ValidationError c m) = ProtoCommandError c m"
| "ProtocolError e = ProtoCommandError ErrInternalError (error_text e)"

fun ProtoErr_Document :: "ProtoErr \<Rightarrow> Document" where
  "ProtoErr_Document (ProtoCommandError c m) =
     \<lparr>doc_fields = [(''ok'', VDouble 0), (''code'', VInt32 (code_number c)),
                 (''codeName'', VString (code_name c)), (''errmsg'', VString m)],
      frozen = False\<rparr>"
| "ProtoErr_Document (ProtoWriteErrors d) = d"

text \<open>\<^verbatim>\<open>commonerrors.NewCommandErrorMsg(code, msg)\<close>.\<close>

definition NewCommandErrorMsg :: "ErrorCode \<Rightarrow> string \<Rightarrow> error" where
  "NewCommandErrorMsg c m = CommandError c m"

text \<open>
  Modelled from the spec: \<^verbatim>\<open>OpMsg.SetSections\<close> and \<^verbatim>\<open>OpMsg.Document\<close>. Sections are
  accepted when every kind is 0 or 1, there is exactly one kind-0 section, and it holds
  exactly one document.
\<close>

definition sections_ok :: "OpMsgSection list \<Rightarrow> bool" where
  "sections_ok secs =
     (list_all (\<lambda>s. Kind s = 0 \<or> Kind s = 1) secs \<and>
      (case filter (\<lambda>s. Kind s = 0) secs of
         [s] \<Rightarrow> length (Documents s) = 1
       | _ \<Rightarrow> False))"

definition zero_OpMsg :: OpMsg where
  "zero_OpMsg = \<lparr>FlagBits = 0, sections = []\<rparr>"

definition SetSections :: "OpMsg \<Rightarrow> OpMsgSection list \<Rightarrow> error + OpMsg" where
  "SetSections msg secs =
     (if sections_ok secs then Inr (msg\<lparr>sections := secs\<rparr>)
      else Inl (ErrorString ''invalid sections''))"

definition OpMsg_Document :: "OpMsg \<Rightarrow> error + Document" where
  "OpMsg_Document msg =
     (if sections_ok (sections msg)
      then Inr (hd (Documents (hd (filter (\<lambda>s. Kind s = 0) (sections msg)))))
      else Inl (ErrorString ''invalid sections''))"

section \<open>The connection\<close>

datatype Mode = NormalMode | ProxyMode | DiffNormalMode | DiffProxyMode

text \<open>
  \<^verbatim>\<open>zapcore.Level\<close> is an integer: Debug is -1, Info is 0 (the zero value of the type),
  Warn is 1, Error is 2, DPanic is 3.
\<close>

type_synonym Level = int

definition DebugLevel :: Level where "DebugLevel = - 1"
definition InfoLevel :: Level where "InfoLevel = 0"
definition WarnLevel :: Level where "WarnLevel = 1"
definition ErrorLevel :: Level where "ErrorLevel = 2"
definition DPanicLevel :: Level where "DPanicLevel = 3"

text \<open>
  What the runner does to the outside is recorded as a list of events, in the order of
  the statements that cause them: log entries with their level, the call of
  \<^verbatim>\<open>c.proxy.Route\<close>, the calls of a command handler and of \<^verbatim>\<open>CmdQuery\<close>, the calls of
  \<^verbatim>\<open>wire.WriteMessage\<close> and of \<^verbatim>\<open>bufw.Flush\<close>. Prometheus counters, pprof labels,
  tracing and the recording of traffic to files are left out.
\<close>

datatype log_entry =
    LogRequestHeader MsgHeader
  | LogRequestMessage "MsgBody option"
  | LogResponseHeader string MsgHeader
  | LogResponseMessage string "MsgBody option"
  | LogDiff "MsgHeader option" "MsgHeader option" "MsgBody option" "MsgBody option"
  | LogHandlerError string error OpCode
  | LogPanic string

datatype event =
    EvLog Level log_entry
  | EvProxyRoute MsgHeader "MsgBody option"
  | EvHandler string OpMsg
  | EvCmdQuery OpQuery
  | EvWriteMessage MsgHeader MsgBody
  | EvFlush

text \<open>
  A handler returns a response (possibly nil) and an error (possibly nil), or panics.
  It works on a state of its own (the backend), of type \<open>'h\<close>.
\<close>

datatype 'a handler_result = HandlerPanic string | HandlerReturn "'a option" "error option"

record 'h command =
  Help :: string
  Handler :: "('h \<Rightarrow> OpMsg \<Rightarrow> OpMsg handler_result \<times> 'h) option"

text \<open>
  The connection: its mode, whether \<^verbatim>\<open>c.proxy\<close> is set, the command registry
  \<^verbatim>\<open>commoncommands.Commands\<close>, the handler's \<^verbatim>\<open>CmdQuery\<close> and \<^verbatim>\<open>MarshalBinary\<close> of
  the message bodies. The state that changes while it runs is the request id counter
  (an \<^verbatim>\<open>atomic.Int32\<close>, whose \<^verbatim>\<open>Add\<close> wraps around) and the handler's state.
\<close>

record 'h conn =
  mode :: Mode
  proxy :: bool
  Commands :: "string \<Rightarrow> 'h command option"
  CmdQuery :: "'h \<Rightarrow> OpQuery \<Rightarrow> OpReply handler_result \<times> 'h"
  MarshalBinary :: "MsgBody \<Rightarrow> error + byte list"

record 'h conn_state =
  lastRequestID :: int32
  h :: 'h

text \<open>
  What the outside does in one iteration of the loop: what \<^verbatim>\<open>wire.ReadMessage\<close> returns
  (a header and a body, or an error, with the header when one was read), what the
  upstream answers through \<^verbatim>\<open>c.proxy.Route\<close>, and whether the two diffs, the write and
  the flush fail.
\<close>

datatype read_result =
    ReadOk MsgHeader "MsgBody option"
  | ReadFailed "MsgHeader option" error

record env =
  read :: read_result
  proxy_route :: "MsgHeader option \<times> MsgBody option"
  diff_header_err :: "error option"
  diff_body_err :: "error option"
  write_err :: "error option"
  flush_err :: "error option"

text \<open>
  Inside an iteration a step goes on with a value, panics, or makes \<^verbatim>\<open>run\<close> return an
  error. \<open>then_do\<close> runs the next step after one that went on, and keeps the events.
\<close>

datatype 'a ctl = Ok 'a | Panic string | Return error

definition then_do ::
  "event list \<times> 'a ctl \<Rightarrow> ('a \<Rightarrow> event list \<times> 'b ctl) \<Rightarrow> event list \<times> 'b ctl" where
  "then_do m f =
     (case m of
        (evs, Ok a) \<Rightarrow> (case f a of (evs', r) \<Rightarrow> (evs @ evs', r))
      | (evs, Panic p) \<Rightarrow> (evs, Panic p)
      | (evs, Return e) \<Rightarrow> (evs, Return e))"

subsection \<open>handleOpMsg and route\<close>

definition no_such_command :: "string \<Rightarrow> string" where
  "no_such_command command = ''no such command: '' @ [CHR 0x27] @ command @ [CHR 0x27]"

definition handleOpMsg ::
  "'h conn \<Rightarrow> 'h \<Rightarrow> OpMsg \<Rightarrow> string \<Rightarrow> event list \<times> OpMsg handler_result \<times> 'h" where
  "handleOpMsg c hs msg command =
     (case (case Commands c command of None \<Rightarrow> None | Some cmd \<Rightarrow> Handler cmd) of
        Some handler \<Rightarrow>
          (case handler hs msg of (r, hs') \<Rightarrow> ([EvHandler command msg], r, hs'))
      | None \<Rightarrow>
          ([], HandlerReturn None
                 (Some (NewCommandErrorMsg ErrCommandNotFound (no_such_command command))),
           hs))"

text \<open>
  The first switch of \<^verbatim>\<open>route\<close>, on the request's opcode: the opcode of the response
  header, the response body and the error. A type assertion on a body of another type
  (or on nil) panics.
\<close>

definition route_dispatch ::
  "'h conn \<Rightarrow> 'h \<Rightarrow> MsgHeader \<Rightarrow> MsgBody option \<Rightarrow>
     event list \<times> (OpCode \<times> MsgBody option \<times> error option) ctl \<times> 'h" where
  "route_dispatch c hs reqHeader reqBody =
     (case OpCode reqHeader of
        OpCodeMsg \<Rightarrow>
          (case reqBody of
             Some (BodyMsg msg) \<Rightarrow>
               (case OpMsg_Document msg of
                  Inl err \<Rightarrow> ([], Ok (OpCodeMsg, None, Some err), hs)
                | Inr document \<Rightarrow>
                    (case handleOpMsg c hs msg (Command document) of
                       (evs, HandlerPanic p, hs') \<Rightarrow> (evs, Panic p, hs')
                     | (evs, HandlerReturn resMsg err, hs') \<Rightarrow>
                         (evs, Ok (OpCodeMsg, map_option BodyMsg resMsg, err), hs')))
           | _ \<Rightarrow> ([], Panic ''interface conversion'', hs))
      | OpCodeQuery \<Rightarrow>
          (case reqBody of
             Some (BodyQuery q) \<Rightarrow>
               (case CmdQuery c hs q of
                  (HandlerPanic p, hs') \<Rightarrow> ([EvCmdQuery q], Panic p, hs')
                | (HandlerReturn resReply err, hs') \<Rightarrow>
                    ([EvCmdQuery q], Ok (OpCodeReply, map_option BodyReply resReply, err), hs'))
           | _ \<Rightarrow> ([], Panic ''interface conversion'', hs))
      | OpCodeOther n \<Rightarrow>
          ([], Ok (OpCodeOther 0, None, Some (ErrUnexpectedOpCode (OpCode reqHeader))), hs)
      | _ \<Rightarrow>
          ([], Ok (OpCodeOther 0, None, Some (ErrUnhandledOpCode (OpCode reqHeader))), hs))"

text \<open>
  The second switch, on the response header's opcode when there is an error: the body
  to send, or the early return with \<^verbatim>\<open>closeConn\<close> set (\<open>Inl\<close>, with the label and the
  error that are logged).
\<close>

definition error_section :: "error \<Rightarrow> OpMsgSection" where
  "error_section err =
     \<lparr>Kind = 0, Identifier = [], Documents = [ProtoErr_Document (ProtocolError err)]\<rparr>"

text \<open>
  The message \<^verbatim>\<open>res\<close> that \<^verbatim>\<open>route\<close> and \<^verbatim>\<open>run\<close> build for an error when
  \<^verbatim>\<open>SetSections\<close> accepts its one section.
\<close>

definition error_OpMsg :: "error \<Rightarrow> OpMsg" where
  "error_OpMsg err = zero_OpMsg\<lparr>sections := [error_section err]\<rparr>"

definition route_error ::
  "OpCode \<Rightarrow> MsgBody option \<Rightarrow> error option \<Rightarrow> (string \<times> error + MsgBody option) ctl" where
  "route_error opcode resBody err =
     (case err of
        None \<Rightarrow> Ok (Inr resBody)
      | Some e \<Rightarrow>
          (case opcode of
             OpCodeMsg \<Rightarrow>
               (case SetSections zero_OpMsg [error_section e] of
                  Inl e' \<Rightarrow> Panic (error_text e')
                | Inr res \<Rightarrow> Ok (Inr (Some (BodyMsg res))))
           | OpCodeOther n \<Rightarrow> Ok (Inl (''Handler error for unexpected response opcode'', e))
           | _ \<Rightarrow> Ok (Inl (''Handler error for unhandled response opcode'', e))))"

definition route ::
  "'h conn \<Rightarrow> 'h conn_state \<Rightarrow> MsgHeader \<Rightarrow> MsgBody option \<Rightarrow>
     event list \<times> ((MsgHeader \<times> MsgBody option \<times> bool) \<times> 'h conn_state) ctl" where
  "route c s reqHeader reqBody =
     (case route_dispatch c (h s) reqHeader reqBody of
        (evs, Panic p, hs') \<Rightarrow> (evs, Panic p)
      | (evs, Return e, hs') \<Rightarrow> (evs, Return e)
      | (evs, Ok (opcode, resBody, err), hs') \<Rightarrow>
          (let resHeader = zero_MsgHeader\<lparr>OpCode := opcode\<rparr> in
           case route_error opcode resBody err of
             Panic p \<Rightarrow> (evs, Panic p)
           | Return e \<Rightarrow> (evs, Return e)
           | Ok (Inl (label, e)) \<Rightarrow>
               (evs @ [EvLog ErrorLevel (LogHandlerError label e opcode)],
                Ok ((resHeader, resBody, True), s\<lparr>h := hs'\<rparr>))
           | Ok (Inr None) \<Rightarrow> (evs, Panic ''nil pointer dereference'')
           | Ok (Inr (Some body)) \<Rightarrow>
               (case MarshalBinary c body of
                  Inl e \<Rightarrow> (evs, Panic (error_text e))
                | Inr b \<Rightarrow>
                    (evs,
                     Ok ((resHeader\<lparr>MessageLength := of_nat (MsgHeaderLen + length b),
                                     RequestID := lastRequestID s + 1,
                                     ResponseTo := RequestID reqHeader\<rparr>,
                          Some body, False),
                         s\<lparr>lastRequestID := lastRequestID s + 1, h := hs'\<rparr>)))))"

subsection \<open>logResponse\<close>

text \<open>
  \<^verbatim>\<open>ok, _ := doc.Get("ok")\<close> and \<^verbatim>\<open>f, _ := ok.(float64)\<close>: the value of the field
  \<open>ok\<close> when it is a double, and 0 when it is missing or of another type.
\<close>

definition ok_field :: "Document \<Rightarrow> real" where
  "ok_field doc = (case Get doc ''ok'' of Some (VDouble f) \<Rightarrow> f | _ \<Rightarrow> 0)"

definition logResponse ::
  "string \<Rightarrow> MsgHeader option \<Rightarrow> MsgBody option \<Rightarrow> bool \<Rightarrow> event list \<times> Level ctl" where
  "logResponse who resHeader resBody closeConn =
     (case resHeader of
        None \<Rightarrow> ([], Panic ''nil pointer dereference'')
      | Some hdr \<Rightarrow>
          then_do
            ([],
             if OpCode hdr = OpCodeMsg then
               (case resBody of
                  Some (BodyMsg m) \<Rightarrow>
                    (case OpMsg_Document m of
                       Inl e \<Rightarrow> Panic (error_text e)
                     | Inr doc \<Rightarrow>
                         Ok (if ok_field doc \<noteq> 1
                             then (if closeConn then ErrorLevel else WarnLevel)
                             else DebugLevel))
                | _ \<Rightarrow> Panic ''interface conversion'')
             else Ok DebugLevel)
            (\<lambda>level.
               ([EvLog level (LogResponseHeader who hdr),
                 EvLog level (LogResponseMessage who resBody)],
                Ok level)))"

subsection \<open>run\<close>

text \<open>
  The steps of one iteration after a successful read, in the order of the source: the
  request goes to the proxy (unless the mode is normal), then to \<^verbatim>\<open>route\<close> (unless the
  mode is proxy), the proxy's response is logged, the diff is logged at
  \<^verbatim>\<open>diffLogLevel\<close>, and one of the two responses is written and flushed.
\<close>

definition proxy_step ::
  "'h conn \<Rightarrow> env \<Rightarrow> MsgHeader \<Rightarrow> MsgBody option \<Rightarrow>
     event list \<times> (MsgHeader option \<times> MsgBody option) ctl" where
  "proxy_step c e reqHeader reqBody =
     (if mode c \<noteq> NormalMode then
        (if \<not> proxy c then ([], Panic ''proxy addr was nil'')
         else ([EvProxyRoute reqHeader reqBody], Ok (proxy_route e)))
      else ([], Ok (None, None)))"

definition raise_level :: "Level \<Rightarrow> Level \<Rightarrow> Level" where
  "raise_level level diffLogLevel = (if level > diffLogLevel then level else diffLogLevel)"

definition route_step ::
  "'h conn \<Rightarrow> 'h conn_state \<Rightarrow> MsgHeader \<Rightarrow> MsgBody option \<Rightarrow>
     event list \<times> ((MsgHeader option \<times> MsgBody option \<times> bool) \<times> Level \<times> 'h conn_state) ctl" where
  "route_step c s reqHeader reqBody =
     (if mode c \<noteq> ProxyMode then
        then_do (route c s reqHeader reqBody)
          (\<lambda>((resHeader, resBody, resCloseConn), s').
             then_do (logResponse ''Response'' (Some resHeader) resBody resCloseConn)
               (\<lambda>level.
                  ([], Ok ((Some resHeader, resBody, resCloseConn),
                           raise_level level InfoLevel, s'))))
      else ([], Ok ((None, None, False), InfoLevel, s)))"

definition proxy_log_step ::
  "'h conn \<Rightarrow> MsgHeader option \<Rightarrow> MsgBody option \<Rightarrow> Level \<Rightarrow> event list \<times> Level ctl" where
  "proxy_log_step c proxyHeader proxyBody diffLogLevel =
     (if mode c \<noteq> NormalMode then
        then_do (logResponse ''Proxy response'' proxyHeader proxyBody False)
          (\<lambda>level. ([], Ok (raise_level level diffLogLevel)))
      else ([], Ok diffLogLevel))"

definition diff_step ::
  "'h conn \<Rightarrow> env \<Rightarrow> Level \<Rightarrow> MsgHeader option \<Rightarrow> MsgHeader option \<Rightarrow>
     MsgBody option \<Rightarrow> MsgBody option \<Rightarrow> event list \<times> unit ctl" where
  "diff_step c e diffLogLevel resHeader proxyHeader resBody proxyBody =
     (if mode c = DiffNormalMode \<or> mode c = DiffProxyMode then
        (case diff_header_err e of
           Some err \<Rightarrow> ([], Return err)
         | None \<Rightarrow>
             (case diff_body_err e of
                Some err \<Rightarrow> ([], Return err)
              | None \<Rightarrow>
                  ([EvLog diffLogLevel (LogDiff resHeader proxyHeader resBody proxyBody)],
                   Ok ())))
      else ([], Ok ()))"

definition write_step :: "env \<Rightarrow> MsgHeader \<Rightarrow> MsgBody \<Rightarrow> event list \<times> unit ctl" where
  "write_step e resHeader resBody =
     (case write_err e of
        Some err \<Rightarrow> ([EvWriteMessage resHeader resBody], Return err)
      | None \<Rightarrow>
          (case flush_err e of
             Some err \<Rightarrow> ([EvWriteMessage resHeader resBody, EvFlush], Return err)
           | None \<Rightarrow> ([EvWriteMessage resHeader resBody, EvFlush], Ok ())))"

definition send_step ::
  "'h conn \<Rightarrow> env \<Rightarrow> MsgHeader option \<Rightarrow> MsgBody option \<Rightarrow> MsgHeader option \<Rightarrow>
     MsgBody option \<Rightarrow> event list \<times> unit ctl" where
  "send_step c e resHeader resBody proxyHeader proxyBody =
     (case (if mode c = ProxyMode \<or> mode c = DiffProxyMode then (proxyHeader, proxyBody)
            else (resHeader, resBody)) of
        (Some hdr, Some body) \<Rightarrow> write_step e hdr body
      | _ \<Rightarrow> ([], Panic ''no response to send to client''))"

definition serve ::
  "'h conn \<Rightarrow> 'h conn_state \<Rightarrow> env \<Rightarrow> MsgHeader \<Rightarrow> MsgBody option \<Rightarrow>
     event list \<times> 'h conn_state ctl" where
  "serve c s e reqHeader reqBody =
     then_do ([EvLog DebugLevel (LogRequestHeader reqHeader),
               EvLog DebugLevel (LogRequestMessage reqBody)], Ok ())
       (\<lambda>u. then_do (proxy_step c e reqHeader reqBody)
       (\<lambda>(proxyHeader, proxyBody). then_do (route_step c s reqHeader reqBody)
       (\<lambda>((resHeader, resBody, resCloseConn), level, s').
          then_do (proxy_log_step c proxyHeader proxyBody level)
       (\<lambda>diffLogLevel.
          then_do (diff_step c e diffLogLevel resHeader proxyHeader resBody proxyBody)
       (\<lambda>u. then_do (send_step c e resHeader resBody proxyHeader proxyBody)
       (\<lambda>u. ([], if resCloseConn then Return (ErrorString ''fatal error'')
                  else Ok s')))))))"

text \<open>
  The response to a read that failed with a validation error. The fields of the header
  literal are evaluated in order, so a nil request header panics before the counter
  moves.
\<close>

definition validation_response ::
  "'h conn \<Rightarrow> 'h conn_state \<Rightarrow> env \<Rightarrow> MsgHeader option \<Rightarrow> error \<Rightarrow>
     event list \<times> 'h conn_state ctl" where
  "validation_response c s e reqHeader validationErr =
     (case SetSections zero_OpMsg [error_section validationErr] of
        Inl e' \<Rightarrow> ([], Panic (error_text e'))
      | Inr res \<Rightarrow>
          (case MarshalBinary c (BodyMsg res) of
             Inl e' \<Rightarrow> ([], Panic (error_text e'))
           | Inr b \<Rightarrow>
               (case reqHeader of
                  None \<Rightarrow> ([], Panic ''nil pointer dereference'')
                | Some req \<Rightarrow>
                    then_do
                      (write_step e
                         \<lparr>MessageLength = of_nat (MsgHeaderLen + length b),
                          RequestID = lastRequestID s + 1,
                          ResponseTo = RequestID req,
                          OpCode = OpCode req\<rparr>
                         (BodyMsg res))
                      (\<lambda>u. ([], Ok (s\<lparr>lastRequestID := lastRequestID s + 1\<rparr>))))))"

definition iteration ::
  "'h conn \<Rightarrow> 'h conn_state \<Rightarrow> env \<Rightarrow> event list \<times> 'h conn_state ctl" where
  "iteration c s e =
     (case read e of
        ReadFailed reqHeader (ValidationError code m) \<Rightarrow>
          validation_response c s e reqHeader (ValidationError code m)
      | ReadFailed reqHeader err \<Rightarrow> ([], Return err)
      | ReadOk reqHeader reqBody \<Rightarrow> serve c s e reqHeader reqBody)"

text \<open>
  The loop, over what the outside does in each iteration. When these are used up the
  runner is blocked in the next read with the connection open. A return or a panic ends
  the run: the deferred flush runs, a panic is recovered and logged, and the error
  returned is "panic".
\<close>

datatype 'h run_status = Reading "'h conn_state" | Exited error

fun run :: "'h conn \<Rightarrow> 'h conn_state \<Rightarrow> env list \<Rightarrow> event list \<times> 'h run_status" where
  "run c s [] = ([], Reading s)"
| "run c s (e # es) =
     (case iteration c s e of
        (evs, Ok s') \<Rightarrow> (case run c s' es of (evs', st) \<Rightarrow> (evs @ evs', st))
      | (evs, Return err) \<Rightarrow> (evs @ [EvFlush], Exited err)
      | (evs, Panic p) \<Rightarrow>
          (evs @ [EvFlush, EvLog DPanicLevel (LogPanic p)], Exited (ErrorString ''panic'')))"

definition new_state :: "'h \<Rightarrow> 'h conn_state" where
  "new_state hs = \<lparr>lastRequestID = 0, h = hs\<rparr>"

subsection \<open>Observations on the events\<close>

text \<open>The frames handed to \<^verbatim>\<open>wire.WriteMessage\<close>, in order.\<close>

fun written :: "event list \<Rightarrow> (MsgHeader \<times> MsgBody) list" where
  "written [] = []"
| "written (EvWriteMessage hdr body # evs) = (hdr, body) # written evs"
| "written (ev # evs) = written evs"

text \<open>The calls of the local handler: a command handler or \<^verbatim>\<open>CmdQuery\<close>.\<close>

fun is_handler_call :: "event \<Rightarrow> bool" where
  "is_handler_call (EvHandler command msg) = True"
| "is_handler_call (EvCmdQuery q) = True"
| "is_handler_call ev = False"

fun is_proxy_call :: "event \<Rightarrow> bool" where
  "is_proxy_call (EvProxyRoute hdr body) = True"
| "is_proxy_call ev = False"

text \<open>The levels at which a diff was logged, and the handler errors logged.\<close>

fun diff_levels :: "event list \<Rightarrow> Level list" where
  "diff_levels [] = []"
| "diff_levels (EvLog level (LogDiff rh ph rb pb) # evs) = level # diff_levels evs"
| "diff_levels (ev # evs) = diff_levels evs"

fun handler_errors :: "event list \<Rightarrow> (string \<times> error \<times> OpCode) list" where
  "handler_errors [] = []"
| "handler_errors (EvLog level (LogHandlerError label err opcode) # evs) =
     (label, err, opcode) # handler_errors evs"
| "handler_errors (ev # evs) = handler_errors evs"

text \<open>The request ids of the frames handed to \<^verbatim>\<open>wire.WriteMessage\<close>, in order.\<close>

definition response_ids :: "event list \<Rightarrow> int32 list" where
  "response_ids evs = map (\<lambda>(hdr, body). RequestID hdr) (written evs)"

text \<open>
  The convention of Go that the handlers of the repository follow
  (\<^verbatim>\<open>return nil, err\<close> or \<^verbatim>\<open>return &reply, nil\<close>): \<^verbatim>\<open>CmdQuery\<close> returns a reply
  or an error, not both. With both, \<^verbatim>\<open>route\<close> returns early with \<^verbatim>\<open>closeConn\<close> and
  the reply under a header that was not filled in.
\<close>

definition reply_or_error :: "'h conn \<Rightarrow> bool" where
  "reply_or_error c =
     (\<forall>hs q r err hs'. CmdQuery c hs q \<noteq> (HandlerReturn (Some r) (Some err), hs'))"

text \<open>
  The mirrored half of an iteration goes through: the mode is normal, or the proxy is
  set, the upstream's response can be logged, and neither diff fails.
\<close>

definition mirror_ok :: "'h conn \<Rightarrow> env \<Rightarrow> bool" where
  "mirror_ok c e =
     (mode c = NormalMode \<or>
      proxy c \<and>
      (case snd (logResponse ''Proxy response'' (fst (proxy_route e)) (snd (proxy_route e))
                   False) of
         Ok level \<Rightarrow> True
       | _ \<Rightarrow> False) \<and>
      diff_header_err e = None \<and> diff_body_err e = None)"

text \<open>The legacy opcodes that \<^verbatim>\<open>route\<close> names and does not handle.\<close>

definition legacy :: "OpCode \<Rightarrow> bool" where
  "legacy opcode =
     (opcode \<in> {OpCodeReply, OpCodeUpdate, OpCodeInsert, OpCodeGetByOID, OpCodeGetMore,
                 OpCodeDelete, OpCodeKillCursors, OpCodeCompressed})"

section \<open>The collection contract\<close>

text \<open>
  \<^verbatim>\<open>InsertAllParams.Docs\<close> is a slice of pointers to documents, and \<^verbatim>\<open>Freeze\<close> changes
  the document a pointer refers to: documents live in a store, and the slice holds
  their addresses (the same address may occur twice).

  Modelled from the spec: \<^verbatim>\<open>Document.Freeze\<close> marks the document frozen.
\<close>

type_synonym doc_ref = nat
type_synonym doc_store = "doc_ref \<Rightarrow> Document"

definition Freeze :: "doc_store \<Rightarrow> doc_ref \<Rightarrow> doc_store" where
  "Freeze st r = st(r := (st r)\<lparr>frozen := True\<rparr>)"

record InsertAllParams =
  Docs :: "doc_ref list"

datatype InsertAllResult = InsertAllResult

datatype BackendErrorCode = ErrorCodeInsertDuplicateID | ErrorCodeOther nat

datatype backend_error = BackendError BackendErrorCode | ForeignError string

text \<open>
  Modelled from the spec: \<^verbatim>\<open>checkError(err, codes...)\<close>. A returned error must be drawn
  from the set allowed for the operation; a backend error of another kind is a
  programmer's bug, and the check panics.
\<close>

definition checkError :: "backend_error option \<Rightarrow> BackendErrorCode list \<Rightarrow> bool" where
  "checkError err codes =
     (case err of
        Some (BackendError code) \<Rightarrow> code \<in> set codes
      | _ \<Rightarrow> True)"

text \<open>
  The wrapped implementation \<^verbatim>\<open>cc.c.InsertAll\<close> works on a state of its own and on
  the store of documents, and returns a result (possibly nil) and an error (possibly
  nil).
\<close>

type_synonym 'b insert_all_impl =
  "'b \<Rightarrow> doc_store \<Rightarrow> InsertAllParams \<Rightarrow>
     (InsertAllResult option \<times> backend_error option) \<times> 'b \<times> doc_store"

text \<open>The loop \<^verbatim>\<open>for _, doc := range params.Docs { doc.Freeze() }\<close>.\<close>

fun freeze_all :: "doc_store \<Rightarrow> doc_ref list \<Rightarrow> doc_store" where
  "freeze_all st [] = st"
| "freeze_all st (doc # docs) = freeze_all (Freeze st doc) docs"

definition check_InsertAll ::
  "(InsertAllResult option \<times> backend_error option) \<times> 'b \<times> doc_store \<Rightarrow>
     (InsertAllResult option \<times> backend_error option) ctl \<times> 'b \<times> doc_store" where
  "check_InsertAll r =
     (case r of
        ((res, err), b, st) \<Rightarrow>
          (if checkError err [ErrorCodeInsertDuplicateID] then (Ok (res, err), b, st)
           else (Panic ''unexpected error code'', b, st)))"

definition InsertAll ::
  "'b insert_all_impl \<Rightarrow> 'b \<Rightarrow> doc_store \<Rightarrow> InsertAllParams \<Rightarrow>
     (InsertAllResult option \<times> backend_error option) ctl \<times> 'b \<times> doc_store" where
  "InsertAll impl b st params =
     check_InsertAll (impl b (freeze_all st (Docs params)) params)"

text \<open>
  A document has no operation that unfreezes it, so no implementation does: a document
  frozen when the implementation is called is frozen when it returns.
\<close>

definition keeps_frozen :: "'b insert_all_impl \<Rightarrow> bool" where
  "keeps_frozen impl =
     (\<forall>b st params r. frozen (st r) \<longrightarrow> frozen (snd (snd (impl b st params)) r))"

section \<open>Example inputs\<close>

text \<open>
  A store of unfrozen documents, and an implementation that rejects every insert as a
  duplicate and leaves the documents alone.
\<close>

definition example_store :: doc_store where
  "example_store r = \<lparr>doc_fields = [(''_id'', VInt32 (of_nat r))], frozen = False\<rparr>"

definition rejecting_impl :: "unit insert_all_impl" where
  "rejecting_impl b st params =
     ((None, Some (BackendError ErrorCodeInsertDuplicateID)), b, st)"

text \<open>
  A connection whose registry knows the one command \<open>ping\<close>, answered with
  \<open>{ok: 1.0}\<close>; \<^verbatim>\<open>CmdQuery\<close> answers with a reply holding the same document. The
  marshalled length of a body is made up (the encoding is not in the sources): what
  matters is that it is a function of the body.
\<close>

definition ok_document :: Document where
  "ok_document = \<lparr>doc_fields = [(''ok'', VDouble 1)], frozen = False\<rparr>"

definition document_msg :: "Document \<Rightarrow> OpMsg" where
  "document_msg d = zero_OpMsg\<lparr>sections := [\<lparr>Kind = 0, Identifier = [], Documents = [d]\<rparr>]\<rparr>"

definition ping_handler :: "unit \<Rightarrow> OpMsg \<Rightarrow> OpMsg handler_result \<times> unit" where
  "ping_handler hs msg = (HandlerReturn (Some (document_msg ok_document)) None, hs)"

definition example_Commands :: "string \<Rightarrow> unit command option" where
  "example_Commands name =
     (if name = ''ping''
      then Some \<lparr>Help = ''Returns a pong response.'', Handler = Some ping_handler\<rparr>
      else None)"

definition example_CmdQuery :: "unit \<Rightarrow> OpQuery \<Rightarrow> OpReply handler_result \<times> unit" where
  "example_CmdQuery hs q = (HandlerReturn (Some \<lparr>reply_documents = [ok_document]\<rparr>) None, hs)"

definition example_MarshalBinary :: "MsgBody \<Rightarrow> error + byte list" where
  "example_MarshalBinary body =
     Inr (replicate
            (case body of
               BodyMsg m \<Rightarrow> 5 + 16 * length (sections m)
             | BodyQuery q \<Rightarrow> 20 + length (FullCollectionName q)
             | BodyReply r \<Rightarrow> 20 + 16 * length (reply_documents r))
            0)"

definition example_conn :: "Mode \<Rightarrow> unit conn" where
  "example_conn m =
     \<lparr>mode = m, proxy = (m \<noteq> NormalMode), Commands = example_Commands,
      CmdQuery = example_CmdQuery, MarshalBinary = example_MarshalBinary\<rparr>"

text \<open>
  One iteration in which nothing fails on the way out: what the read returns and what
  the upstream answers.
\<close>

definition exchange :: "read_result \<Rightarrow> MsgHeader option \<times> MsgBody option \<Rightarrow> env" where
  "exchange rd upstream =
     \<lparr>read = rd, proxy_route = upstream, diff_header_err = None, diff_body_err = None,
      write_err = None, flush_err = None\<rparr>"

definition request_header :: "int32 \<Rightarrow> OpCode \<Rightarrow> MsgHeader" where
  "request_header rid opcode =
     \<lparr>MessageLength = 64, RequestID = rid, ResponseTo = 0, OpCode = opcode\<rparr>"

definition command_document :: "string \<Rightarrow> Document" where
  "command_document name =
     \<lparr>doc_fields = [(name, VInt32 1), (''$db'', VString ''admin'')], frozen = False\<rparr>"

definition command_request :: "int32 \<Rightarrow> string \<Rightarrow> read_result" where
  "command_request rid name =
     ReadOk (request_header rid OpCodeMsg) (Some (BodyMsg (document_msg (command_document name))))"

definition upstream_reply :: "int32 \<Rightarrow> Document \<Rightarrow> MsgHeader option \<times> MsgBody option" where
  "upstream_reply rid d =
     (Some \<lparr>MessageLength = 37, RequestID = 900, ResponseTo = rid, OpCode = OpCodeMsg\<rparr>,
      Some (BodyMsg (document_msg d)))"

definition no_upstream :: "MsgHeader option \<times> MsgBody option" where
  "no_upstream = (None, None)"

section \<open>Properties of the connection runner\<close>

subsection \<open>Frames and events of the steps\<close>

lemma written_append [simp]: "written (a @ b) = written a @ written b"
  by (induction a rule: written.induct) simp_all

lemma SetSections_error [simp]:
  "SetSections zero_OpMsg [error_section err] = Inr (error_OpMsg err)"
  by (simp add: SetSections_def sections_ok_def error_section_def error_OpMsg_def)

lemma OpMsg_Document_error [simp]:
  "OpMsg_Document (error_OpMsg err) = Inr (ProtoErr_Document (ProtocolError err))"
  by (simp add: OpMsg_Document_def sections_ok_def error_section_def error_OpMsg_def zero_OpMsg_def)

lemma written_then_do:
  "written (fst (then_do m f)) =
     written (fst m) @ (case snd m of Ok a \<Rightarrow> written (fst (f a)) | _ \<Rightarrow> [])"
  by (cases m; cases "snd m") (auto simp: then_do_def split: prod.splits)

lemma snd_then_do:
  "snd (then_do m f) = (case snd m of Ok a \<Rightarrow> snd (f a) | Panic p \<Rightarrow> Panic p | Return e \<Rightarrow> Return e)"
  by (cases m; cases "snd m") (auto simp: then_do_def split: prod.splits)

lemma written_logResponse [simp]: "written (fst (logResponse who hdr body cc)) = []"
  by (auto simp: logResponse_def written_then_do split: option.splits MsgBody.splits sum.splits)

lemma written_route [simp]: "written (fst (route c s rq rb)) = []"
  by (auto simp: route_def Let_def route_dispatch_def handleOpMsg_def
      split: prod.splits ctl.splits sum.splits option.splits OpCode.splits MsgBody.splits handler_result.splits)


lemma route_normal:
  assumes "route c s rq rb = (evs, Ok ((rh, rbody, False), s'))"
  shows "\<exists>body b. rbody = Some body \<and> MarshalBinary c body = Inr b \<and>
           MessageLength rh = of_nat (MsgHeaderLen + length b) \<and>
           RequestID rh = lastRequestID s + 1 \<and> ResponseTo rh = RequestID rq \<and>
           lastRequestID s' = lastRequestID s + 1"
  using assms
  by (auto simp: route_def Let_def
      split: prod.splits ctl.splits sum.splits option.splits)

lemma handler_errors_append [simp]:
  "handler_errors (a @ b) = handler_errors a @ handler_errors b"
  by (induction a rule: handler_errors.induct) simp_all

lemma written_write_step [simp]: "written (fst (write_step e hdr body)) = [(hdr, body)]"
  by (auto simp: write_step_def split: option.splits)

lemma written_proxy_step [simp]: "written (fst (proxy_step c e rq rb)) = []"
  by (auto simp: proxy_step_def)

lemma written_proxy_log_step [simp]: "written (fst (proxy_log_step c ph pb l)) = []"
  by (auto simp: proxy_log_step_def written_then_do split: ctl.splits)

lemma written_diff_step [simp]: "written (fst (diff_step c e l rh ph rb pb)) = []"
  by (auto simp: diff_step_def split: option.splits)

lemma written_route_step [simp]: "written (fst (route_step c s rq rb)) = []"
  by (auto simp: route_step_def written_then_do split: ctl.splits prod.splits)

lemma route_step_local:
  assumes "mode c \<noteq> ProxyMode" and "snd (route_step c s rq rb) = Ok ((rh, rbody, cc), l, s')"
  shows "\<exists>evs hdr. rh = Some hdr \<and> route c s rq rb = (evs, Ok ((hdr, rbody, cc), s'))"
  using assms
  by (cases "route c s rq rb")
     (auto simp: route_step_def snd_then_do then_do_def split: ctl.splits prod.splits)

lemma serve_written:
  assumes "(hdr, body) \<in> set (written (fst (serve c s e rq rb)))"
  shows "\<exists>ph pb rh rbody cc l s'.
           snd (proxy_step c e rq rb) = Ok (ph, pb) \<and>
           snd (route_step c s rq rb) = Ok ((rh, rbody, cc), l, s') \<and>
           (hdr, body) \<in> set (written (fst (send_step c e rh rbody ph pb)))"
  using assms
  apply (auto simp: serve_def written_then_do split: ctl.splits prod.splits)
  apply metis
  done

lemma serve_local_written:
  assumes m: "mode c = NormalMode \<or> mode c = DiffNormalMode"
    and w: "(hdr, body) \<in> set (written (fst (serve c s e rq rb)))"
  shows "\<exists>evs cc s'. route c s rq rb = (evs, Ok ((hdr, Some body, cc), s'))"
proof -
  from serve_written [OF w] obtain ph pb rh rbody cc l s' where
    R: "snd (route_step c s rq rb) = Ok ((rh, rbody, cc), l, s')" and
    S: "(hdr, body) \<in> set (written (fst (send_step c e rh rbody ph pb)))"
    by blast
  from m S have "rh = Some hdr" "rbody = Some body"
    by (auto simp: send_step_def split: option.splits)
  moreover from m have "mode c \<noteq> ProxyMode" by auto
  ultimately show ?thesis
    using route_step_local [OF _ R] by auto
qed


lemma route_close_body:
  assumes "route c s rq rb = (evs, Ok ((rh, Some body, True), s'))"
  shows "\<not> reply_or_error c"
  using assms
  apply (auto simp: route_def Let_def route_error_def route_dispatch_def reply_or_error_def
      split: prod.splits ctl.splits sum.splits option.splits OpCode.splits MsgBody.splits
             handler_result.splits)
  apply blast
  done

lemma validation_written:
  assumes "(hdr, body) \<in> set (written (fst (validation_response c s e rqo verr)))"
  shows "\<exists>req b. rqo = Some req \<and> body = BodyMsg (error_OpMsg verr) \<and>
           MarshalBinary c body = Inr b \<and>
           MessageLength hdr = of_nat (MsgHeaderLen + length b) \<and>
           RequestID hdr = lastRequestID s + 1 \<and> ResponseTo hdr = RequestID req \<and>
           OpCode hdr = OpCode req"
  using assms
  by (auto simp: validation_response_def written_then_do split: sum.splits option.splits)

lemma sint_of_nat_small:
  "n < 2 ^ 31 \<Longrightarrow> sint (of_nat n :: 32 word) = int n"
  by (simp add: signed_of_nat signed_take_bit_int_eq_self)

lemma iteration_frame:
  assumes w: "(hdr, body) \<in> set (written (fst (iteration c s e)))"
    and r: "reply_or_error c"
    and m: "(\<exists>rq rb. read e = ReadOk rq rb) \<longrightarrow> mode c = NormalMode \<or> mode c = DiffNormalMode"
  shows "\<exists>b. MarshalBinary c body = Inr b \<and>
           MessageLength hdr = of_nat (MsgHeaderLen + length b) \<and>
           RequestID hdr = lastRequestID s + 1 \<and>
           (\<forall>rq rb. read e = ReadOk rq rb \<longrightarrow> ResponseTo hdr = RequestID rq) \<and>
           (\<forall>rq err. read e = ReadFailed (Some rq) err \<longrightarrow> ResponseTo hdr = RequestID rq)"
proof (cases "read e")
  case (ReadOk rq rb)
  with w have "(hdr, body) \<in> set (written (fst (serve c s e rq rb)))"
    by (simp add: iteration_def)
  with m ReadOk obtain evs cc s' where
    R: "route c s rq rb = (evs, Ok ((hdr, Some body, cc), s'))"
    using serve_local_written by blast
  have "\<not> cc"
  proof
    assume cc
    with R have "route c s rq rb = (evs, Ok ((hdr, Some body, True), s'))" by simp
    from route_close_body [OF this] r show False by simp
  qed
  with R have "route c s rq rb = (evs, Ok ((hdr, Some body, False), s'))" by simp
  from route_normal [OF this] ReadOk show ?thesis by auto
next
  case (ReadFailed rqo err)
  with w have "(hdr, body) \<in> set (written (fst (validation_response c s e rqo err)))"
    by (auto simp: iteration_def split: error.splits)
  from validation_written [OF this] ReadFailed show ?thesis by auto
qed

lemmas run_defs = iteration_def serve_def validation_response_def then_do_def proxy_step_def
  route_step_def proxy_log_step_def diff_step_def send_step_def write_step_def route_def
  route_dispatch_def route_error_def handleOpMsg_def logResponse_def raise_level_def
  SetSections_def OpMsg_Document_def sections_ok_def error_section_def error_OpMsg_def
  zero_OpMsg_def zero_MsgHeader_def Command_def Get_def ok_field_def NewCommandErrorMsg_def
  no_such_command_def MsgHeaderLen_def DebugLevel_def InfoLevel_def WarnLevel_def
  ErrorLevel_def DPanicLevel_def

lemmas example_defs = example_conn_def example_Commands_def example_CmdQuery_def
  example_MarshalBinary_def ping_handler_def document_msg_def ok_document_def exchange_def
  request_header_def command_document_def command_request_def upstream_reply_def
  no_upstream_def new_state_def

lemma example_reply_or_error: "reply_or_error (example_conn m)"
  by (simp add: reply_or_error_def example_conn_def example_CmdQuery_def)

subsection \<open>The length and the addressee of a response\<close>

text \<open>
  C2. Every frame that an iteration hands to \<^verbatim>\<open>wire.WriteMessage\<close> and that the runner
  built itself (the response to a validation error in any mode, the response of
  \<^verbatim>\<open>route\<close> in the normal and diff-normal modes) has a body that marshals to some bytes
  \<open>b\<close>, and its \<^verbatim>\<open>MessageLength\<close> is the int32 of the header length plus the length
  of \<open>b\<close>; below 2 GiB that is the number itself.
\<close>

theorem response_MessageLength:
  assumes "(hdr, body) \<in> set (written (fst (iteration c s e)))"
    and "reply_or_error c"
    and "(\<exists>rq rb. read e = ReadOk rq rb) \<longrightarrow> mode c = NormalMode \<or> mode c = DiffNormalMode"
  shows "\<exists>b. MarshalBinary c body = Inr b \<and>
           MessageLength hdr = of_nat (MsgHeaderLen + length b) \<and>
           (MsgHeaderLen + length b < 2 ^ 31 \<longrightarrow>
              sint (MessageLength hdr) = int MsgHeaderLen + int (length b))"
proof -
  from iteration_frame [OF assms] obtain b where
    b: "MarshalBinary c body = Inr b" "MessageLength hdr = of_nat (MsgHeaderLen + length b)"
    by blast
  have "sint (MessageLength hdr) = int MsgHeaderLen + int (length b)"
    if "MsgHeaderLen + length b < 2 ^ 31"
    using that b(2) sint_of_nat_small [of "MsgHeaderLen + length b"] by simp
  with b show ?thesis by blast
qed

theorem response_MessageLength_witness:
  "reply_or_error (example_conn NormalMode) \<and>
   written (fst (iteration (example_conn NormalMode) (new_state ())
                   (exchange (command_request 7 ''ping'') no_upstream))) =
     [(\<lparr>MessageLength = 37, RequestID = 1, ResponseTo = 7, OpCode = OpCodeMsg\<rparr>,
       BodyMsg (document_msg ok_document))] \<and>
   (\<exists>b. example_MarshalBinary (BodyMsg (document_msg ok_document)) = Inr b \<and>
        length b = 21 \<and> (37 :: int32) = of_nat (MsgHeaderLen + length b) \<and>
        sint (37 :: int32) = int MsgHeaderLen + int (length b))"
proof -
  let ?c = "example_conn NormalMode"
  let ?e = "exchange (command_request 7 ''ping'') no_upstream"
  let ?hdr = "\<lparr>MessageLength = 37, RequestID = 1, ResponseTo = 7, OpCode = OpCodeMsg\<rparr>"
  let ?body = "BodyMsg (document_msg ok_document)"
  have w: "written (fst (iteration ?c (new_state ()) ?e)) = [(?hdr, ?body)]"
    by (simp add: run_defs example_defs)
  then have m: "(?hdr, ?body) \<in> set (written (fst (iteration ?c (new_state ()) ?e)))"
    by simp
  have r: "reply_or_error ?c"
    by (rule example_reply_or_error)
  have n: "(\<exists>rq rb. read ?e = ReadOk rq rb) \<longrightarrow> mode ?c = NormalMode \<or> mode ?c = DiffNormalMode"
    by (simp add: example_conn_def)
  from response_MessageLength [OF m r n] obtain b where
    b: "MarshalBinary ?c ?body = Inr b"
       "MessageLength ?hdr = of_nat (MsgHeaderLen + length b)"
       "MsgHeaderLen + length b < 2 ^ 31 \<longrightarrow>
          sint (MessageLength ?hdr) = int MsgHeaderLen + int (length b)"
    by blast
  from b(1) have l: "example_MarshalBinary ?body = Inr b" "length b = 21"
    by (auto simp: example_defs)
  with b(2,3) have "(37 :: int32) = of_nat (MsgHeaderLen + length b)"
    "sint (37 :: int32) = int MsgHeaderLen + int (length b)"
    by (simp_all add: MsgHeaderLen_def)
  with r w l show ?thesis by blast
qed

text \<open>
  C3. Every such frame answers the request read in that iteration: its
  \<^verbatim>\<open>ResponseTo\<close> is the \<^verbatim>\<open>RequestID\<close> of the request header, for a response of
  \<^verbatim>\<open>route\<close> and for the response to a validation error alike.
\<close>

theorem response_ResponseTo:
  assumes "(hdr, body) \<in> set (written (fst (iteration c s e)))"
    and "reply_or_error c"
    and "read e = ReadOk req rb \<and> (mode c = NormalMode \<or> mode c = DiffNormalMode) \<or>
         read e = ReadFailed (Some req) err"
  shows "ResponseTo hdr = RequestID req"
proof -
  from assms(3) have
    "(\<exists>rq rb. read e = ReadOk rq rb) \<longrightarrow> mode c = NormalMode \<or> mode c = DiffNormalMode"
    by auto
  from iteration_frame [OF assms(1,2) this] assms(3) show ?thesis
    by auto
qed

theorem response_ResponseTo_witness:
  "reply_or_error (example_conn DiffNormalMode) \<and>
   written (fst (iteration (example_conn DiffNormalMode) (new_state ())
                   (exchange (command_request 7 ''ping'') (upstream_reply 7 ok_document)))) =
     [(\<lparr>MessageLength = 37, RequestID = 1, ResponseTo = 7, OpCode = OpCodeMsg\<rparr>,
       BodyMsg (document_msg ok_document))] \<and>
   written (fst (iteration (example_conn ProxyMode) (new_state ())
                   (exchange (ReadFailed (Some (request_header 9 OpCodeMsg))
                                (ValidationError (ErrOtherCode 2 ''BadValue'') ''bad section''))
                      no_upstream))) =
     [(\<lparr>MessageLength = 37, RequestID = 1, ResponseTo = 9, OpCode = OpCodeMsg\<rparr>,
       BodyMsg (error_OpMsg (ValidationError (ErrOtherCode 2 ''BadValue'') ''bad section'')))] \<and>
   ResponseTo \<lparr>MessageLength = 37, RequestID = 1, ResponseTo = 7, OpCode = OpCodeMsg\<rparr> =
     RequestID (request_header 7 OpCodeMsg) \<and>
   ResponseTo \<lparr>MessageLength = 37, RequestID = 1, ResponseTo = 9, OpCode = OpCodeMsg\<rparr> =
     RequestID (request_header 9 OpCodeMsg)"
proof -
  let ?c = "example_conn DiffNormalMode"
  let ?e = "exchange (command_request 7 ''ping'') (upstream_reply 7 ok_document)"
  let ?hdr = "\<lparr>MessageLength = 37, RequestID = 1, ResponseTo = 7, OpCode = OpCodeMsg\<rparr>"
  let ?body = "BodyMsg (document_msg ok_document)"
  let ?verr = "ValidationError (ErrOtherCode 2 ''BadValue'') ''bad section''"
  let ?c' = "example_conn ProxyMode"
  let ?e' = "exchange (ReadFailed (Some (request_header 9 OpCodeMsg)) ?verr) no_upstream"
  let ?hdr' = "\<lparr>MessageLength = 37, RequestID = 1, ResponseTo = 9, OpCode = OpCodeMsg\<rparr>"
  have w: "written (fst (iteration ?c (new_state ()) ?e)) = [(?hdr, ?body)]"
    by (simp add: run_defs example_defs)
  have w': "written (fst (iteration ?c' (new_state ()) ?e')) = [(?hdr', BodyMsg (error_OpMsg ?verr))]"
    by (simp add: run_defs example_defs)
  have r: "reply_or_error ?c" "reply_or_error ?c'"
    by (rule example_reply_or_error)+
  have k: "read ?e = ReadOk (request_header 7 OpCodeMsg)
                      (Some (BodyMsg (document_msg (command_document ''ping'')))) \<and>
             (mode ?c = NormalMode \<or> mode ?c = DiffNormalMode) \<or>
           read ?e = ReadFailed (Some (request_header 7 OpCodeMsg)) ?verr"
    by (simp add: example_conn_def exchange_def command_request_def)
  have k': "read ?e' = ReadOk (request_header 9 OpCodeMsg) None \<and>
             (mode ?c' = NormalMode \<or> mode ?c' = DiffNormalMode) \<or>
           read ?e' = ReadFailed (Some (request_header 9 OpCodeMsg)) ?verr"
    by (simp add: exchange_def)
  have "ResponseTo ?hdr = RequestID (request_header 7 OpCodeMsg)"
    using response_ResponseTo [OF _ r(1) k, of ?hdr ?body "new_state ()"] w by simp
  moreover have "ResponseTo ?hdr' = RequestID (request_header 9 OpCodeMsg)"
    using response_ResponseTo [OF _ r(2) k', of ?hdr' "BodyMsg (error_OpMsg ?verr)" "new_state ()"] w'
    by simp
  ultimately show ?thesis
    using r(1) w w' by blast
qed

subsection \<open>Validation errors\<close>

lemma validation_iteration:
  assumes "read e = ReadFailed (Some req) (ValidationError code m)"
    and "MarshalBinary c (BodyMsg (error_OpMsg (ValidationError code m))) = Inr b"
  shows "iteration c s e =
           then_do
             (write_step e
                \<lparr>MessageLength = of_nat (MsgHeaderLen + length b),
                 RequestID = lastRequestID s + 1,
                 ResponseTo = RequestID req,
                 OpCode = OpCode req\<rparr>
                (BodyMsg (error_OpMsg (ValidationError code m))))
             (\<lambda>u. ([], Ok (s\<lparr>lastRequestID := lastRequestID s + 1\<rparr>)))"
  using assms by (simp add: iteration_def validation_response_def)

text \<open>
  When the read fails with a validation error and the request header came with it (the
  error message marshals, the write and the flush succeed), the runner hands to
  \<^verbatim>\<open>wire.WriteMessage\<close> an OP_MSG whose one document is the validation error's document,
  with \<open>ok: 0.0\<close>, under a header that answers the request's id; it flushes, and the
  loop goes on with the rest of the input from the state with the counter moved by one:
  this iteration does not end the run.
\<close>

theorem validation_error_keeps_connection:
  assumes "read e = ReadFailed (Some req) (ValidationError code m)"
    and "MarshalBinary c (BodyMsg (error_OpMsg (ValidationError code m))) = Inr b"
    and "write_err e = None" and "flush_err e = None"
  shows "run c s (e # es) =
           ([EvWriteMessage
               \<lparr>MessageLength = of_nat (MsgHeaderLen + length b),
                RequestID = lastRequestID s + 1,
                ResponseTo = RequestID req,
                OpCode = OpCode req\<rparr>
               (BodyMsg (error_OpMsg (ValidationError code m))),
             EvFlush] @ fst (run c (s\<lparr>lastRequestID := lastRequestID s + 1\<rparr>) es),
            snd (run c (s\<lparr>lastRequestID := lastRequestID s + 1\<rparr>) es)) \<and>
         OpMsg_Document (error_OpMsg (ValidationError code m)) =
           Inr (ProtoErr_Document (ProtocolError (ValidationError code m))) \<and>
         Get (ProtoErr_Document (ProtocolError (ValidationError code m))) ''ok'' =
           Some (VDouble 0)"
proof -
  have "iteration c s e =
          ([EvWriteMessage
              \<lparr>MessageLength = of_nat (MsgHeaderLen + length b),
               RequestID = lastRequestID s + 1,
               ResponseTo = RequestID req,
               OpCode = OpCode req\<rparr>
              (BodyMsg (error_OpMsg (ValidationError code m))),
            EvFlush],
           Ok (s\<lparr>lastRequestID := lastRequestID s + 1\<rparr>))"
    using assms(3,4) by (simp add: validation_iteration [OF assms(1,2)] write_step_def then_do_def)
  then have "run c s (e # es) =
           ([EvWriteMessage
               \<lparr>MessageLength = of_nat (MsgHeaderLen + length b),
                RequestID = lastRequestID s + 1,
                ResponseTo = RequestID req,
                OpCode = OpCode req\<rparr>
               (BodyMsg (error_OpMsg (ValidationError code m))),
             EvFlush] @ fst (run c (s\<lparr>lastRequestID := lastRequestID s + 1\<rparr>) es),
            snd (run c (s\<lparr>lastRequestID := lastRequestID s + 1\<rparr>) es))"
    by (simp split: prod.splits)
  moreover have "Get (ProtoErr_Document (ProtocolError (ValidationError code m))) ''ok'' =
           Some (VDouble 0)"
    by (simp add: Get_def)
  ultimately show ?thesis by simp
qed

theorem validation_error_keeps_connection_witness:
  "written (fst (run (example_conn NormalMode) (new_state ())
      [exchange (ReadFailed (Some (request_header 9 OpCodeMsg))
                   (ValidationError (ErrOtherCode 2 ''BadValue'') ''bad section''))
         no_upstream,
       exchange (command_request 10 ''ping'') no_upstream])) =
     [(\<lparr>MessageLength = 37, RequestID = 1, ResponseTo = 9, OpCode = OpCodeMsg\<rparr>,
       BodyMsg (error_OpMsg (ValidationError (ErrOtherCode 2 ''BadValue'') ''bad section''))),
      (\<lparr>MessageLength = 37, RequestID = 2, ResponseTo = 10, OpCode = OpCodeMsg\<rparr>,
       BodyMsg (document_msg ok_document))] \<and>
   snd (run (example_conn NormalMode) (new_state ())
      [exchange (ReadFailed (Some (request_header 9 OpCodeMsg))
                   (ValidationError (ErrOtherCode 2 ''BadValue'') ''bad section''))
         no_upstream,
       exchange (command_request 10 ''ping'') no_upstream]) =
     Reading \<lparr>lastRequestID = 2, h = ()\<rparr>"
proof -
  let ?c = "example_conn NormalMode"
  let ?verr = "ValidationError (ErrOtherCode 2 ''BadValue'') ''bad section''"
  let ?e = "exchange (ReadFailed (Some (request_header 9 OpCodeMsg)) ?verr) no_upstream"
  let ?es = "[exchange (command_request 10 ''ping'') no_upstream]"
  have a: "read ?e = ReadFailed (Some (request_header 9 OpCodeMsg))
                       (ValidationError (ErrOtherCode 2 ''BadValue'') ''bad section'')"
    by (simp add: exchange_def)
  have b: "MarshalBinary ?c (BodyMsg (error_OpMsg ?verr)) = Inr (replicate 21 0)"
    by (simp add: example_defs error_OpMsg_def zero_OpMsg_def)
  have w: "write_err ?e = None" "flush_err ?e = None"
    by (simp_all add: exchange_def)
  have rest: "run ?c ((new_state ())\<lparr>lastRequestID := lastRequestID (new_state ()) + 1\<rparr>) ?es =
     ([EvLog DebugLevel (LogRequestHeader (request_header 10 OpCodeMsg)),
       EvLog DebugLevel
         (LogRequestMessage (Some (BodyMsg (document_msg (command_document ''ping''))))),
       EvHandler ''ping'' (document_msg (command_document ''ping'')),
       EvLog DebugLevel
         (LogResponseHeader ''Response''
            \<lparr>MessageLength = 37, RequestID = 2, ResponseTo = 10, OpCode = OpCodeMsg\<rparr>),
       EvLog DebugLevel
         (LogResponseMessage ''Response'' (Some (BodyMsg (document_msg ok_document)))),
       EvWriteMessage \<lparr>MessageLength = 37, RequestID = 2, ResponseTo = 10, OpCode = OpCodeMsg\<rparr>
         (BodyMsg (document_msg ok_document)),
       EvFlush],
      Reading \<lparr>lastRequestID = 2, h = ()\<rparr>)"
    by (simp add: run_defs example_defs)
  from validation_error_keeps_connection [OF a b w, of "new_state ()" ?es]
  have "run ?c (new_state ()) (?e # ?es) =
     ([EvWriteMessage
         \<lparr>MessageLength = of_nat (MsgHeaderLen + length (replicate 21 (0 :: byte))),
          RequestID = lastRequestID (new_state ()) + 1,
          ResponseTo = RequestID (request_header 9 OpCodeMsg),
          OpCode = OpCode (request_header 9 OpCodeMsg)\<rparr>
         (BodyMsg (error_OpMsg ?verr)),
       EvFlush] @
      fst (run ?c ((new_state ())\<lparr>lastRequestID := lastRequestID (new_state ()) + 1\<rparr>) ?es),
      snd (run ?c ((new_state ())\<lparr>lastRequestID := lastRequestID (new_state ()) + 1\<rparr>) ?es))"
    by blast
  then show ?thesis
    unfolding rest by (simp add: MsgHeaderLen_def new_state_def request_header_def)
qed

text \<open>
  With the request header at hand, the header of the response to a validation error
  carries the opcode of the request header, whatever it is, and the body is the OP_MSG
  of the error.
\<close>

theorem validation_response_opcode:
  assumes "read e = ReadFailed (Some req) (ValidationError code m)"
    and "MarshalBinary c (BodyMsg (error_OpMsg (ValidationError code m))) = Inr b"
  shows "\<exists>hdr. written (fst (iteration c s e)) =
                 [(hdr, BodyMsg (error_OpMsg (ValidationError code m)))] \<and>
               OpCode hdr = OpCode req"
  by (simp add: validation_iteration [OF assms] written_then_do split: ctl.splits)

subsection \<open>Validation errors without a header\<close>

text \<open>
  \<^verbatim>\<open>wire.ReadMessage\<close> returns pointers, and the header may be nil when it returns an
  error. The validation path reads \<^verbatim>\<open>reqHeader.OpCode\<close> and \<^verbatim>\<open>reqHeader.RequestID\<close>
  without a check: with a nil header the iteration panics before anything is written, in
  every mode.
\<close>

lemma validation_nil_header:
  assumes "read e = ReadFailed None (ValidationError code m)"
  shows "written (fst (iteration c s e)) = [] \<and> (\<exists>p. snd (iteration c s e) = Panic p)"
  using assms
  by (simp add: iteration_def validation_response_def split: sum.splits)

text \<open>
  C1. A message whose decoding fails with a validation error that comes without the
  header (a malformed OP_QUERY) is not answered: the runner panics on the nil header,
  hands nothing to \<^verbatim>\<open>wire.WriteMessage\<close>, and the run ends with the error "panic"; the
  well-formed \<open>ping\<close> that follows on the connection is never read.
\<close>

theorem validation_error_nil_header_ends_run:
  "run (example_conn NormalMode) (new_state ())
     [exchange (ReadFailed None (ValidationError (ErrOtherCode 2 ''BadValue'') ''bad query''))
        no_upstream,
      exchange (command_request 10 ''ping'') no_upstream] =
     ([EvFlush, EvLog DPanicLevel (LogPanic ''nil pointer dereference'')],
      Exited (ErrorString ''panic''))"
  by (simp add: run_defs example_defs)

text \<open>
  C10. For a malformed OP_QUERY, whose validation error comes without the header, there
  is no opcode to copy: the iteration panics where the response header is built and no
  frame is emitted, neither under the OP_QUERY opcode nor under any other.
\<close>

theorem validation_response_nil_header_no_frame:
  "iteration (example_conn NormalMode) (new_state ())
     (exchange (ReadFailed None (ValidationError (ErrOtherCode 2 ''BadValue'') ''bad query''))
        no_upstream) =
     ([], Panic ''nil pointer dereference'') \<and>
   written (fst (iteration (example_conn NormalMode) (new_state ())
     (exchange (ReadFailed None (ValidationError (ErrOtherCode 2 ''BadValue'') ''bad query''))
        no_upstream))) = []"
  by (simp add: run_defs example_defs)

subsection \<open>The proxy comes first\<close>

lemma fst_then_do:
  "fst (then_do m f) = fst m @ (case snd m of Ok a \<Rightarrow> fst (f a) | _ \<Rightarrow> [])"
  by (cases m; cases "snd m") (auto simp: then_do_def split: prod.splits)

lemma serve_events_mirrored:
  assumes "mode c \<noteq> NormalMode"
  shows "\<exists>rest. fst (serve c s e rq rb) =
           [EvLog DebugLevel (LogRequestHeader rq), EvLog DebugLevel (LogRequestMessage rb)] @
           (if proxy c then EvProxyRoute rq rb # rest else [])"
  using assms by (simp add: serve_def fst_then_do proxy_step_def)

text \<open>
  C5. In the proxy, diff-normal and diff-proxy modes, in an iteration whose read
  succeeded, the request is handed to \<^verbatim>\<open>c.proxy.Route\<close> (when the proxy is set; without
  it the iteration panics at once), and every call of a command handler or of
  \<^verbatim>\<open>CmdQuery\<close> in that iteration comes after that call: the local handler is never
  called first.
\<close>

theorem proxy_before_handler:
  assumes "mode c \<noteq> NormalMode" and "read e = ReadOk rq rb"
  shows "(proxy c \<longrightarrow> EvProxyRoute rq rb \<in> set (fst (iteration c s e))) \<and>
         (\<forall>pre ev post.
            fst (iteration c s e) = pre @ ev # post \<and> is_handler_call ev \<longrightarrow>
            EvProxyRoute rq rb \<in> set pre)"
proof -
  from serve_events_mirrored [OF assms(1)] obtain rest where
    evs: "fst (serve c s e rq rb) =
           [EvLog DebugLevel (LogRequestHeader rq), EvLog DebugLevel (LogRequestMessage rb)] @
           (if proxy c then EvProxyRoute rq rb # rest else [])"
    by blast
  have it: "iteration c s e = serve c s e rq rb"
    using assms(2) by (simp add: iteration_def)
  have "EvProxyRoute rq rb \<in> set pre"
    if "fst (iteration c s e) = pre @ ev # post" and "is_handler_call ev" for pre ev post
    using that evs unfolding it
    by (cases "proxy c") (auto simp: Cons_eq_append_conv)
  moreover have "proxy c \<longrightarrow> EvProxyRoute rq rb \<in> set (fst (iteration c s e))"
    unfolding it evs by simp
  ultimately show ?thesis by blast
qed

theorem proxy_before_handler_witness:
  "mode (example_conn DiffNormalMode) \<noteq> NormalMode \<and> proxy (example_conn DiffNormalMode) \<and>
   fst (iteration (example_conn DiffNormalMode) (new_state ())
          (exchange (command_request 7 ''ping'') (upstream_reply 7 ok_document))) =
     [EvLog DebugLevel (LogRequestHeader (request_header 7 OpCodeMsg)),
      EvLog DebugLevel
        (LogRequestMessage (Some (BodyMsg (document_msg (command_document ''ping''))))),
      EvProxyRoute (request_header 7 OpCodeMsg)
        (Some (BodyMsg (document_msg (command_document ''ping''))))] @
     EvHandler ''ping'' (document_msg (command_document ''ping'')) #
     [EvLog DebugLevel
        (LogResponseHeader ''Response''
           \<lparr>MessageLength = 37, RequestID = 1, ResponseTo = 7, OpCode = OpCodeMsg\<rparr>),
      EvLog DebugLevel
        (LogResponseMessage ''Response'' (Some (BodyMsg (document_msg ok_document)))),
      EvLog DebugLevel
        (LogResponseHeader ''Proxy response''
           \<lparr>MessageLength = 37, RequestID = 900, ResponseTo = 7, OpCode = OpCodeMsg\<rparr>),
      EvLog DebugLevel
        (LogResponseMessage ''Proxy response'' (Some (BodyMsg (document_msg ok_document)))),
      EvLog InfoLevel
        (LogDiff (Some \<lparr>MessageLength = 37, RequestID = 1, ResponseTo = 7, OpCode = OpCodeMsg\<rparr>)
           (Some \<lparr>MessageLength = 37, RequestID = 900, ResponseTo = 7, OpCode = OpCodeMsg\<rparr>)
           (Some (BodyMsg (document_msg ok_document)))
           (Some (BodyMsg (document_msg ok_document)))),
      EvWriteMessage \<lparr>MessageLength = 37, RequestID = 1, ResponseTo = 7, OpCode = OpCodeMsg\<rparr>
        (BodyMsg (document_msg ok_document)),
      EvFlush] \<and>
   is_handler_call (EvHandler ''ping'' (document_msg (command_document ''ping''))) \<and>
   EvProxyRoute (request_header 7 OpCodeMsg)
        (Some (BodyMsg (document_msg (command_document ''ping'')))) \<in>
     set [EvLog DebugLevel (LogRequestHeader (request_header 7 OpCodeMsg)),
          EvLog DebugLevel
            (LogRequestMessage (Some (BodyMsg (document_msg (command_document ''ping''))))),
          EvProxyRoute (request_header 7 OpCodeMsg)
            (Some (BodyMsg (document_msg (command_document ''ping''))))]"
  (is "?m \<and> ?p \<and> ?it = ?pre @ ?ev # ?post \<and> ?h \<and> ?concl")
proof -
  let ?c = "example_conn DiffNormalMode"
  let ?e = "exchange (command_request 7 ''ping'') (upstream_reply 7 ok_document)"
  have m: ?m and p: ?p
    by (simp_all add: example_conn_def)
  have r: "read ?e = ReadOk (request_header 7 OpCodeMsg)
                      (Some (BodyMsg (document_msg (command_document ''ping''))))"
    by (simp add: exchange_def command_request_def)
  have evs: "?it = ?pre @ ?ev # ?post"
    by (simp add: run_defs example_defs)
  have h: ?h by simp
  from proxy_before_handler [OF m r, of "new_state ()"] evs h have ?concl
    by blast
  with m p evs h show ?thesis by blast
qed

subsection \<open>Legacy opcodes\<close>

lemma route_legacy:
  assumes "legacy (OpCode rq)"
  shows "route c s rq rb =
           ([EvLog ErrorLevel
               (LogHandlerError ''Handler error for unexpected response opcode''
                  (ErrUnhandledOpCode (OpCode rq)) (OpCodeOther 0))],
            Ok ((zero_MsgHeader, None, True), s))"
  using assms
  by (auto simp: legacy_def route_def route_dispatch_def route_error_def zero_MsgHeader_def)

lemma route_step_legacy:
  assumes "legacy (OpCode rq)" and "mode c \<noteq> ProxyMode"
  shows "route_step c s rq rb =
           ([EvLog ErrorLevel
               (LogHandlerError ''Handler error for unexpected response opcode''
                  (ErrUnhandledOpCode (OpCode rq)) (OpCodeOther 0)),
             EvLog DebugLevel (LogResponseHeader ''Response'' zero_MsgHeader),
             EvLog DebugLevel (LogResponseMessage ''Response'' None)],
            Ok ((Some zero_MsgHeader, None, True), InfoLevel, s))"
  using assms(2)
  by (simp add: route_step_def route_legacy [OF assms(1)] then_do_def logResponse_def
      zero_MsgHeader_def raise_level_def DebugLevel_def InfoLevel_def)

lemma handler_errors_then_do:
  "handler_errors (fst (then_do m f)) =
     handler_errors (fst m) @ (case snd m of Ok a \<Rightarrow> handler_errors (fst (f a)) | _ \<Rightarrow> [])"
  by (cases m; cases "snd m") (auto simp: then_do_def split: prod.splits)

lemma serve_legacy:
  assumes "legacy (OpCode rq)"
    and "mode c = NormalMode \<or> mode c = DiffNormalMode \<and> proxy c"
  shows "written (fst (serve c s e rq rb)) = [] \<and>
         handler_errors (fst (serve c s e rq rb)) \<noteq> [] \<and>
         (\<forall>s'. snd (serve c s e rq rb) \<noteq> Ok s')"
proof -
  from assms(2) have m: "mode c \<noteq> ProxyMode" by auto
  note rs = route_step_legacy [OF assms(1) m]
  from assms(2) have p: "\<exists>up. proxy_step c e rq rb = ([], Ok (None, None)) \<and> mode c = NormalMode
                           \<or> proxy_step c e rq rb = ([EvProxyRoute rq rb], Ok up)"
    by (auto simp: proxy_step_def)
  have w: "written (fst (serve c s e rq rb)) = []"
    using assms(2)
    by (auto simp: serve_def written_then_do rs send_step_def split: ctl.splits prod.splits)
  have n: "snd (serve c s e rq rb) \<noteq> Ok s'" for s'
    using assms(2)
    by (auto simp: serve_def snd_then_do rs send_step_def split: ctl.splits prod.splits)
  have h: "handler_errors (fst (serve c s e rq rb)) \<noteq> []"
    using p
    by (auto simp: serve_def handler_errors_then_do rs split: ctl.splits prod.splits)
  from w n h show ?thesis by blast
qed

lemma run_read_error:
  assumes "read e = ReadFailed rqo err" and "\<not> is_validation err"
  shows "run c s (e # es) = ([EvFlush], Exited err)"
  using assms by (cases err) (simp_all add: iteration_def)

text \<open>
  C7, as the code has it. In the normal mode, and in the diff-normal mode with the proxy
  set: an OP_REPLY that the read returns decoded makes \<^verbatim>\<open>route\<close> log a handler error
  and return no body; no frame is handed to \<^verbatim>\<open>wire.WriteMessage\<close>, and the run ends in
  that iteration (the runner panics with "no response to send to client", or a diff
  fails). A message on which the read returns an error that is not a validation error
  never reaches \<^verbatim>\<open>route\<close>: the run returns that error at once, with no frame written
  and nothing logged.
\<close>

theorem legacy_opcode_ends_run:
  assumes "mode c = NormalMode \<or> mode c = DiffNormalMode \<and> proxy c"
  shows "(read e = ReadOk rq rb \<and> OpCode rq = OpCodeReply \<longrightarrow>
            (\<exists>evs err'. run c s (e # es) = (evs, Exited err') \<and> written evs = [] \<and>
                         handler_errors evs \<noteq> [])) \<and>
         (read e = ReadFailed rqo err \<and> \<not> is_validation err \<longrightarrow>
            run c s (e # es) = ([EvFlush], Exited err))"
proof -
  have "\<exists>evs err'. run c s (e # es) = (evs, Exited err') \<and> written evs = [] \<and>
                     handler_errors evs \<noteq> []"
    if r: "read e = ReadOk rq rb" and o: "OpCode rq = OpCodeReply"
  proof -
    have it: "iteration c s e = serve c s e rq rb"
      using r by (simp add: iteration_def)
    from o have "legacy (OpCode rq)"
      by (simp add: legacy_def)
    from serve_legacy [OF this assms] have
      "written (fst (serve c s e rq rb)) = []"
      "handler_errors (fst (serve c s e rq rb)) \<noteq> []"
      "\<forall>s'. snd (serve c s e rq rb) \<noteq> Ok s'"
      by blast+
    then show ?thesis
      by (cases "serve c s e rq rb"; cases "snd (serve c s e rq rb)") (auto simp: it)
  qed
  moreover have "run c s (e # es) = ([EvFlush], Exited err)"
    if "read e = ReadFailed rqo err" and "\<not> is_validation err"
    using that by (rule run_read_error)
  ultimately show ?thesis by blast
qed

theorem legacy_opcode_ends_run_witness:
  "run (example_conn NormalMode) (new_state ())
     [exchange (ReadOk (request_header 7 OpCodeReply)
                  (Some (BodyReply \<lparr>reply_documents = [ok_document]\<rparr>)))
        no_upstream,
      exchange (command_request 8 ''ping'') no_upstream] =
     ([EvLog DebugLevel (LogRequestHeader (request_header 7 OpCodeReply)),
       EvLog DebugLevel
         (LogRequestMessage (Some (BodyReply \<lparr>reply_documents = [ok_document]\<rparr>))),
       EvLog ErrorLevel
         (LogHandlerError ''Handler error for unexpected response opcode''
            (ErrUnhandledOpCode OpCodeReply) (OpCodeOther 0)),
       EvLog DebugLevel (LogResponseHeader ''Response'' zero_MsgHeader),
       EvLog DebugLevel (LogResponseMessage ''Response'' None),
       EvFlush,
       EvLog DPanicLevel (LogPanic ''no response to send to client'')],
      Exited (ErrorString ''panic'')) \<and>
   written (fst (run (example_conn NormalMode) (new_state ())
     [exchange (ReadOk (request_header 7 OpCodeReply)
                  (Some (BodyReply \<lparr>reply_documents = [ok_document]\<rparr>)))
        no_upstream,
      exchange (command_request 8 ''ping'') no_upstream])) = [] \<and>
   run (example_conn NormalMode) (new_state ())
     [exchange (ReadFailed None (ErrorString ''unhandled opcode'')) no_upstream,
      exchange (command_request 8 ''ping'') no_upstream] =
     ([EvFlush], Exited (ErrorString ''unhandled opcode''))"
  (is "?run = ?res \<and> ?w \<and> ?failed")
proof -
  let ?c = "example_conn NormalMode"
  let ?rq = "request_header 7 OpCodeReply"
  let ?rb = "Some (BodyReply \<lparr>reply_documents = [ok_document]\<rparr>)"
  let ?e = "exchange (ReadOk ?rq ?rb) no_upstream"
  let ?e' = "exchange (ReadFailed None (ErrorString ''unhandled opcode'')) no_upstream"
  let ?es = "[exchange (command_request 8 ''ping'') no_upstream]"
  have m: "mode ?c = NormalMode \<or> mode ?c = DiffNormalMode \<and> proxy ?c"
    by (simp add: example_conn_def)
  have r: "read ?e = ReadOk ?rq ?rb \<and> OpCode ?rq = OpCodeReply"
    by (simp add: exchange_def request_header_def)
  have r': "read ?e' = ReadFailed None (ErrorString ''unhandled opcode'') \<and>
            \<not> is_validation (ErrorString ''unhandled opcode'')"
    by (simp add: exchange_def)
  have run: "?run = ?res"
    by (simp add: run_defs example_defs)
  from legacy_opcode_ends_run [OF m, of ?e ?rq ?rb "new_state ()" ?es] r
  obtain evs err' where "?run = (evs, Exited err')" "written evs = []"
    by blast
  then have w: ?w by simp
  from legacy_opcode_ends_run [OF m, of ?e' _ _ "new_state ()" ?es None
      "ErrorString ''unhandled opcode''"] r'
  have ?failed by blast
  with run w show ?thesis by blast
qed

text \<open>
  In the proxy mode \<^verbatim>\<open>route\<close> is not called: an OP_REPLY sent by the client goes to
  the upstream, the upstream's frame is written, no handler error is logged, and the
  runner reads on.
\<close>

theorem legacy_opcode_proxied_counterexample:
  "legacy (OpCode (request_header 7 OpCodeReply)) \<and>
   written (fst (run (example_conn ProxyMode) (new_state ())
     [exchange (ReadOk (request_header 7 OpCodeReply)
                  (Some (BodyReply \<lparr>reply_documents = [ok_document]\<rparr>)))
        (upstream_reply 7 ok_document)])) =
     [(\<lparr>MessageLength = 37, RequestID = 900, ResponseTo = 7, OpCode = OpCodeMsg\<rparr>,
       BodyMsg (document_msg ok_document))] \<and>
   handler_errors (fst (run (example_conn ProxyMode) (new_state ())
     [exchange (ReadOk (request_header 7 OpCodeReply)
                  (Some (BodyReply \<lparr>reply_documents = [ok_document]\<rparr>)))
        (upstream_reply 7 ok_document)])) = [] \<and>
   snd (run (example_conn ProxyMode) (new_state ())
     [exchange (ReadOk (request_header 7 OpCodeReply)
                  (Some (BodyReply \<lparr>reply_documents = [ok_document]\<rparr>)))
        (upstream_reply 7 ok_document)]) = Reading (new_state ())"
  by (simp add: run_defs example_defs legacy_def)

subsection \<open>A local response that goes out\<close>

lemma serve_local_ok:
  assumes r: "route_step c s rq rb = (evs, Ok ((Some hdr, Some body, cc), l, s'))"
    and m: "mode c = NormalMode \<or> mode c = DiffNormalMode"
    and k: "mirror_ok c e"
    and w: "write_err e = None" "flush_err e = None"
  shows "written (fst (serve c s e rq rb)) = [(hdr, body)] \<and>
         snd (serve c s e rq rb) = (if cc then Return (ErrorString ''fatal error'') else Ok s')"
proof -
  have e [simp]: "written evs = []"
    using written_route_step [of c s rq rb] by (simp add: r)
  show ?thesis
  proof (cases "mode c = NormalMode")
  case True
  then show ?thesis
    using w
    by (simp add: serve_def written_then_do snd_then_do r proxy_step_def proxy_log_step_def
        diff_step_def send_step_def write_step_def)
next
  case False
  with m have d: "mode c = DiffNormalMode" by simp
  with k obtain pl where
    p: "proxy c" "diff_header_err e = None" "diff_body_err e = None" and
    pl: "snd (logResponse ''Proxy response'' (fst (proxy_route e)) (snd (proxy_route e)) False)
           = Ok pl"
    by (auto simp: mirror_ok_def split: ctl.splits)
  show ?thesis
    using w d p pl
    by (cases "proxy_route e")
       (simp add: serve_def written_then_do snd_then_do r proxy_step_def proxy_log_step_def
          diff_step_def send_step_def write_step_def)
  qed
qed


subsection \<open>Unknown commands\<close>

lemma route_unknown_command:
  assumes "OpCode rq = OpCodeMsg" and "OpMsg_Document msg = Inr document"
    and "Commands c (Command document) = None"
    and "MarshalBinary c
           (BodyMsg (error_OpMsg (CommandError ErrCommandNotFound
                                    (no_such_command (Command document))))) = Inr b"
  shows "route c s rq (Some (BodyMsg msg)) =
           ([],
            Ok ((\<lparr>MessageLength = of_nat (MsgHeaderLen + length b),
                  RequestID = lastRequestID s + 1,
                  ResponseTo = RequestID rq,
                  OpCode = OpCodeMsg\<rparr>,
                 Some (BodyMsg (error_OpMsg (CommandError ErrCommandNotFound
                                               (no_such_command (Command document))))),
                 False),
                s\<lparr>lastRequestID := lastRequestID s + 1\<rparr>))"
  using assms
  by (simp add: route_def route_dispatch_def handleOpMsg_def route_error_def
      NewCommandErrorMsg_def zero_MsgHeader_def)

lemma route_step_unknown_command:
  assumes "OpCode rq = OpCodeMsg" and "OpMsg_Document msg = Inr document"
    and "Commands c (Command document) = None"
    and "MarshalBinary c
           (BodyMsg (error_OpMsg (CommandError ErrCommandNotFound
                                    (no_such_command (Command document))))) = Inr b"
    and "mode c \<noteq> ProxyMode"
  shows "\<exists>evs. route_step c s rq (Some (BodyMsg msg)) =
           (evs,
            Ok ((Some \<lparr>MessageLength = of_nat (MsgHeaderLen + length b),
                       RequestID = lastRequestID s + 1,
                       ResponseTo = RequestID rq,
                       OpCode = OpCodeMsg\<rparr>,
                 Some (BodyMsg (error_OpMsg (CommandError ErrCommandNotFound
                                               (no_such_command (Command document))))),
                 False),
                WarnLevel, s\<lparr>lastRequestID := lastRequestID s + 1\<rparr>))"
  using assms(5)
  by (simp add: route_step_def route_unknown_command [OF assms(1-4)] then_do_def
      logResponse_def Get_def ok_field_def raise_level_def WarnLevel_def InfoLevel_def)

text \<open>
  C8, as the code has it. In the normal and diff-normal modes (the mirrored half going
  through, the write and the flush succeeding), an OP_MSG request whose document names
  a command that the registry does not hold is answered with one frame: an OP_MSG under
  the OP_MSG opcode, addressed to the request, whose document is \<open>ok: 0.0\<close>,
  \<open>code: 59\<close>, \<open>codeName: "CommandNotFound"\<close> and an \<open>errmsg\<close> that starts with
  "no such command"; the loop then goes on with the rest of the input.
\<close>

theorem unknown_command_response:
  assumes "read e = ReadOk rq (Some (BodyMsg msg))" and "OpCode rq = OpCodeMsg"
    and "OpMsg_Document msg = Inr document"
    and "Commands c (Command document) = None"
    and "MarshalBinary c
           (BodyMsg (error_OpMsg (CommandError ErrCommandNotFound
                                    (no_such_command (Command document))))) = Inr b"
    and "mode c = NormalMode \<or> mode c = DiffNormalMode" and "mirror_ok c e"
    and "write_err e = None" and "flush_err e = None"
  shows "\<exists>evs.
           run c s (e # es) =
             (evs @ fst (run c (s\<lparr>lastRequestID := lastRequestID s + 1\<rparr>) es),
              snd (run c (s\<lparr>lastRequestID := lastRequestID s + 1\<rparr>) es)) \<and>
           written evs =
             [(\<lparr>MessageLength = of_nat (MsgHeaderLen + length b),
                RequestID = lastRequestID s + 1,
                ResponseTo = RequestID rq,
                OpCode = OpCodeMsg\<rparr>,
               BodyMsg (error_OpMsg (CommandError ErrCommandNotFound
                                       (no_such_command (Command document)))))] \<and>
           OpMsg_Document (error_OpMsg (CommandError ErrCommandNotFound
                                          (no_such_command (Command document)))) =
             Inr \<lparr>doc_fields =
                    [(''ok'', VDouble 0), (''code'', VInt32 59),
                     (''codeName'', VString ''CommandNotFound''),
                     (''errmsg'', VString (''no such command'' @ '': '' @ [CHR 0x27] @
                                            Command document @ [CHR 0x27]))],
                  frozen = False\<rparr>"
proof -
  from assms(6) have "mode c \<noteq> ProxyMode" by auto
  from route_step_unknown_command [OF assms(2-5) this] obtain evs where
    rs: "route_step c s rq (Some (BodyMsg msg)) =
           (evs,
            Ok ((Some \<lparr>MessageLength = of_nat (MsgHeaderLen + length b),
                       RequestID = lastRequestID s + 1,
                       ResponseTo = RequestID rq,
                       OpCode = OpCodeMsg\<rparr>,
                 Some (BodyMsg (error_OpMsg (CommandError ErrCommandNotFound
                                               (no_such_command (Command document))))),
                 False),
                WarnLevel, s\<lparr>lastRequestID := lastRequestID s + 1\<rparr>))"
    by blast
  from serve_local_ok [OF rs assms(6-9)] have
    sv: "written (fst (serve c s e rq (Some (BodyMsg msg)))) =
           [(\<lparr>MessageLength = of_nat (MsgHeaderLen + length b),
              RequestID = lastRequestID s + 1,
              ResponseTo = RequestID rq,
              OpCode = OpCodeMsg\<rparr>,
             BodyMsg (error_OpMsg (CommandError ErrCommandNotFound
                                     (no_such_command (Command document)))))]"
        "snd (serve c s e rq (Some (BodyMsg msg))) =
           Ok (s\<lparr>lastRequestID := lastRequestID s + 1\<rparr>)"
    by simp_all
  have it: "iteration c s e = serve c s e rq (Some (BodyMsg msg))"
    using assms(1) by (simp add: iteration_def)
  have "run c s (e # es) =
          (fst (serve c s e rq (Some (BodyMsg msg))) @
             fst (run c (s\<lparr>lastRequestID := lastRequestID s + 1\<rparr>) es),
           snd (run c (s\<lparr>lastRequestID := lastRequestID s + 1\<rparr>) es))"
    using sv(2) by (cases "serve c s e rq (Some (BodyMsg msg))") (simp add: it split: prod.splits)
  moreover have "OpMsg_Document (error_OpMsg (CommandError ErrCommandNotFound
                                          (no_such_command (Command document)))) =
             Inr \<lparr>doc_fields =
                    [(''ok'', VDouble 0), (''code'', VInt32 59),
                     (''codeName'', VString ''CommandNotFound''),
                     (''errmsg'', VString (''no such command'' @ '': '' @ [CHR 0x27] @
                                            Command document @ [CHR 0x27]))],
                  frozen = False\<rparr>"
    by (simp add: no_such_command_def)
  ultimately show ?thesis
    using sv(1) by blast
qed

theorem unknown_command_response_witness:
  "Commands (example_conn NormalMode) ''noSuchCmd'' = None \<and>
   written (fst (run (example_conn NormalMode) (new_state ())
     [exchange (command_request 7 ''noSuchCmd'') no_upstream,
      exchange (command_request 8 ''ping'') no_upstream])) =
     [(\<lparr>MessageLength = 37, RequestID = 1, ResponseTo = 7, OpCode = OpCodeMsg\<rparr>,
       BodyMsg (error_OpMsg (CommandError ErrCommandNotFound (no_such_command ''noSuchCmd'')))),
      (\<lparr>MessageLength = 37, RequestID = 2, ResponseTo = 8, OpCode = OpCodeMsg\<rparr>,
       BodyMsg (document_msg ok_document))] \<and>
   snd (run (example_conn NormalMode) (new_state ())
     [exchange (command_request 7 ''noSuchCmd'') no_upstream,
      exchange (command_request 8 ''ping'') no_upstream]) =
     Reading \<lparr>lastRequestID = 2, h = ()\<rparr>"
  (is "?reg \<and> written (fst ?run) = ?frames \<and> snd ?run = ?st")
proof -
  let ?c = "example_conn NormalMode"
  let ?e = "exchange (command_request 7 ''noSuchCmd'') no_upstream"
  let ?es = "[exchange (command_request 8 ''ping'') no_upstream]"
  let ?rq = "request_header 7 OpCodeMsg"
  let ?msg = "document_msg (command_document ''noSuchCmd'')"
  let ?s' = "(new_state ())\<lparr>lastRequestID := lastRequestID (new_state ()) + 1\<rparr>"
  have a1: "read ?e = ReadOk ?rq (Some (BodyMsg ?msg))"
    by (simp add: exchange_def command_request_def)
  have a2: "OpCode ?rq = OpCodeMsg"
    by (simp add: request_header_def)
  have a3: "OpMsg_Document ?msg = Inr (command_document ''noSuchCmd'')"
    by (simp add: OpMsg_Document_def sections_ok_def document_msg_def zero_OpMsg_def)
  have cmd: "Command (command_document ''noSuchCmd'') = ''noSuchCmd''"
    by (simp add: Command_def command_document_def)
  have a4: "Commands ?c (Command (command_document ''noSuchCmd'')) = None"
    by (simp add: cmd example_conn_def example_Commands_def)
  have a5: "MarshalBinary ?c
              (BodyMsg (error_OpMsg (CommandError ErrCommandNotFound
                 (no_such_command (Command (command_document ''noSuchCmd'')))))) =
            Inr (replicate 21 0)"
    by (simp add: example_conn_def example_MarshalBinary_def error_OpMsg_def zero_OpMsg_def)
  have a6: "mode ?c = NormalMode \<or> mode ?c = DiffNormalMode"
    by (simp add: example_conn_def)
  have a7: "mirror_ok ?c ?e"
    by (simp add: mirror_ok_def example_conn_def)
  have a8: "write_err ?e = None" "flush_err ?e = None"
    by (simp_all add: exchange_def)
  have rest: "written (fst (run ?c ?s' ?es)) =
                [(\<lparr>MessageLength = 37, RequestID = 2, ResponseTo = 8, OpCode = OpCodeMsg\<rparr>,
                  BodyMsg (document_msg ok_document))]"
             "snd (run ?c ?s' ?es) = Reading \<lparr>lastRequestID = 2, h = ()\<rparr>"
    by (simp_all add: run_defs example_defs)
  from unknown_command_response [OF a1 a2 a3 a4 a5 a6 a7 a8, of "new_state ()" ?es]
  obtain evs where
    r: "run ?c (new_state ()) (?e # ?es) = (evs @ fst (run ?c ?s' ?es), snd (run ?c ?s' ?es))"
    and w: "written evs =
       [(\<lparr>MessageLength = of_nat (MsgHeaderLen + length (replicate 21 (0 :: byte))),
          RequestID = lastRequestID (new_state ()) + 1,
          ResponseTo = RequestID ?rq,
          OpCode = OpCodeMsg\<rparr>,
         BodyMsg (error_OpMsg (CommandError ErrCommandNotFound
                    (no_such_command (Command (command_document ''noSuchCmd''))))))]"
    by blast
  have "written (fst ?run) = ?frames"
    unfolding r using w rest(1)
    by (simp add: cmd MsgHeaderLen_def new_state_def request_header_def)
  moreover have "snd ?run = ?st"
    unfolding r using rest(2) by simp
  moreover have ?reg
    by (simp add: example_conn_def example_Commands_def)
  ultimately show ?thesis by blast
qed

text \<open>
  In the proxy mode the registry is not consulted: for a command it does not hold, the
  frame written is the upstream's, here \<open>{ok: 1.0}\<close>.
\<close>

theorem unknown_command_proxied_counterexample:
  "Commands (example_conn ProxyMode) ''noSuchCmd'' = None \<and>
   written (fst (run (example_conn ProxyMode) (new_state ())
     [exchange (command_request 7 ''noSuchCmd'') (upstream_reply 7 ok_document)])) =
     [(\<lparr>MessageLength = 37, RequestID = 900, ResponseTo = 7, OpCode = OpCodeMsg\<rparr>,
       BodyMsg (document_msg ok_document))] \<and>
   OpMsg_Document (document_msg ok_document) =
     Inr \<lparr>doc_fields = [(''ok'', VDouble 1)], frozen = False\<rparr>"
  by (simp add: run_defs example_defs)

subsection \<open>The level of the diff\<close>

lemma diff_levels_append [simp]: "diff_levels (a @ b) = diff_levels a @ diff_levels b"
  by (induction a rule: diff_levels.induct) simp_all

lemma diff_levels_then_do:
  "diff_levels (fst (then_do m f)) =
     diff_levels (fst m) @ (case snd m of Ok a \<Rightarrow> diff_levels (fst (f a)) | _ \<Rightarrow> [])"
  by (cases m; cases "snd m") (auto simp: then_do_def split: prod.splits)

lemma diff_levels_logResponse [simp]: "diff_levels (fst (logResponse who hdr body cc)) = []"
  by (auto simp: logResponse_def diff_levels_then_do split: option.splits MsgBody.splits sum.splits)

lemma diff_levels_route [simp]: "diff_levels (fst (route c s rq rb)) = []"
  by (auto simp: route_def Let_def route_dispatch_def handleOpMsg_def
      split: prod.splits ctl.splits sum.splits option.splits OpCode.splits MsgBody.splits
             handler_result.splits)

lemma logResponse_levels:
  assumes "snd (logResponse who hdr body False) = Ok l"
  shows "l = DebugLevel \<or> l = WarnLevel"
  using assms
  by (auto simp: logResponse_def snd_then_do split: option.splits MsgBody.splits sum.splits if_splits)

lemma raise_level_Warn:
  assumes "l1 = DebugLevel \<or> l1 = WarnLevel" and "l2 = DebugLevel \<or> l2 = WarnLevel"
  shows "raise_level l2 (raise_level l1 InfoLevel) = WarnLevel \<longleftrightarrow> l1 = WarnLevel \<or> l2 = WarnLevel"
  using assms by (auto simp: raise_level_def DebugLevel_def InfoLevel_def WarnLevel_def)

lemma logResponse_Warn:
  assumes "snd (logResponse who (Some hdr) body False) = Ok l"
  shows "l = WarnLevel \<longleftrightarrow>
           OpCode hdr = OpCodeMsg \<and>
           (\<exists>m doc. body = Some (BodyMsg m) \<and> OpMsg_Document m = Inr doc \<and> ok_field doc \<noteq> 1)"
  using assms
  by (auto simp: logResponse_def snd_then_do DebugLevel_def WarnLevel_def
      split: option.splits MsgBody.splits sum.splits if_splits)

lemma route_step_Ok:
  assumes "route c s rq rb = (evs, Ok ((hdr, body, cc), s'))"
    and "snd (logResponse ''Response'' (Some hdr) body cc) = Ok l"
    and "mode c \<noteq> ProxyMode"
  shows "route_step c s rq rb =
           (evs @ fst (logResponse ''Response'' (Some hdr) body cc),
            Ok ((Some hdr, body, cc), raise_level l InfoLevel, s'))"
  using assms
  by (cases "logResponse ''Response'' (Some hdr) body cc") (simp add: route_step_def then_do_def)

text \<open>
  C6, as the code has it. In the diff-normal mode, when \<^verbatim>\<open>route\<close> returns a response
  and both responses can be logged, the frame handed to \<^verbatim>\<open>wire.WriteMessage\<close> is the
  local one, and the diff is logged once, at the warning level exactly when
  \<^verbatim>\<open>logResponse\<close> logged the local response or the proxy's response at the warning
  level, which it does for an OP_MSG whose \<open>ok\<close> is not the double 1: the level
  follows the outcome of the responses, not whether they agree.
\<close>

theorem diff_normal_level:
  assumes "mode c = DiffNormalMode" and "proxy c" and "read e = ReadOk rq rb"
    and "route c s rq rb = (evs, Ok ((hdr, Some body, False), s'))"
    and "snd (logResponse ''Response'' (Some hdr) (Some body) False) = Ok l1"
    and "proxy_route e = (Some proxyHeader, proxyBody)"
    and "snd (logResponse ''Proxy response'' (Some proxyHeader) proxyBody False) = Ok l2"
    and "diff_header_err e = None" and "diff_body_err e = None"
  shows "written (fst (iteration c s e)) = [(hdr, body)] \<and>
         (\<exists>level. diff_levels (fst (iteration c s e)) = [level] \<and>
                  (level = WarnLevel \<longleftrightarrow> l1 = WarnLevel \<or> l2 = WarnLevel)) \<and>
         (l1 = WarnLevel \<longleftrightarrow>
            OpCode hdr = OpCodeMsg \<and>
            (\<exists>m doc. body = BodyMsg m \<and> OpMsg_Document m = Inr doc \<and> ok_field doc \<noteq> 1)) \<and>
         (l2 = WarnLevel \<longleftrightarrow>
            OpCode proxyHeader = OpCodeMsg \<and>
            (\<exists>m doc. proxyBody = Some (BodyMsg m) \<and> OpMsg_Document m = Inr doc \<and>
                     ok_field doc \<noteq> 1))"
proof -
  have it: "iteration c s e = serve c s e rq rb"
    using assms(3) by (simp add: iteration_def)
  from assms(1) have m: "mode c \<noteq> ProxyMode" by simp
  note rs = route_step_Ok [OF assms(4,5) m]
  have w: "written (fst (serve c s e rq rb)) = [(hdr, body)]"
    using assms(1,2,6,7,8,9) written_route [of c s rq rb]
    by (simp add: serve_def written_then_do snd_then_do rs proxy_step_def proxy_log_step_def
          diff_step_def send_step_def assms(4) split: ctl.splits)
  have d: "diff_levels (fst (serve c s e rq rb)) =
             [raise_level l2 (raise_level l1 InfoLevel)]"
    using assms(1,2,6,7,8,9) diff_levels_route [of c s rq rb]
    by (simp add: serve_def diff_levels_then_do snd_then_do rs proxy_step_def proxy_log_step_def
          diff_step_def send_step_def write_step_def assms(4) split: option.splits ctl.splits)
  from logResponse_levels [OF assms(5)] logResponse_levels [OF assms(7)]
  have "raise_level l2 (raise_level l1 InfoLevel) = WarnLevel \<longleftrightarrow>
          l1 = WarnLevel \<or> l2 = WarnLevel"
    by (rule raise_level_Warn)
  with w d have
    "written (fst (iteration c s e)) = [(hdr, body)] \<and>
     (\<exists>level. diff_levels (fst (iteration c s e)) = [level] \<and>
              (level = WarnLevel \<longleftrightarrow> l1 = WarnLevel \<or> l2 = WarnLevel))"
    unfolding it by simp
  moreover from logResponse_Warn [OF assms(5)] have
    "l1 = WarnLevel \<longleftrightarrow>
       OpCode hdr = OpCodeMsg \<and>
       (\<exists>m doc. body = BodyMsg m \<and> OpMsg_Document m = Inr doc \<and> ok_field doc \<noteq> 1)"
    by simp
  moreover note logResponse_Warn [OF assms(7)]
  ultimately show ?thesis by blast
qed

theorem diff_normal_level_witness:
  "written (fst (iteration (example_conn DiffNormalMode) (new_state ())
      (exchange (command_request 7 ''ping'')
         (upstream_reply 7 (ProtoErr_Document (ProtoCommandError ErrInternalError ''down'')))))) =
     [(\<lparr>MessageLength = 37, RequestID = 1, ResponseTo = 7, OpCode = OpCodeMsg\<rparr>,
       BodyMsg (document_msg ok_document))] \<and>
   diff_levels (fst (iteration (example_conn DiffNormalMode) (new_state ())
      (exchange (command_request 7 ''ping'')
         (upstream_reply 7 (ProtoErr_Document (ProtoCommandError ErrInternalError ''down'')))))) =
     [WarnLevel] \<and>
   snd (logResponse ''Response''
          (Some \<lparr>MessageLength = 37, RequestID = 1, ResponseTo = 7, OpCode = OpCodeMsg\<rparr>)
          (Some (BodyMsg (document_msg ok_document))) False) = Ok DebugLevel \<and>
   snd (logResponse ''Proxy response''
          (Some \<lparr>MessageLength = 37, RequestID = 900, ResponseTo = 7, OpCode = OpCodeMsg\<rparr>)
          (Some (BodyMsg (document_msg
                   (ProtoErr_Document (ProtoCommandError ErrInternalError ''down'')))))
          False) = Ok WarnLevel"
  (is "written (fst ?it) = ?frames \<and> diff_levels (fst ?it) = [WarnLevel] \<and> ?l1 \<and> ?l2")
proof -
  let ?c = "example_conn DiffNormalMode"
  let ?down = "ProtoErr_Document (ProtoCommandError ErrInternalError ''down'')"
  let ?e = "exchange (command_request 7 ''ping'') (upstream_reply 7 ?down)"
  let ?rq = "request_header 7 OpCodeMsg"
  let ?rb = "Some (BodyMsg (document_msg (command_document ''ping'')))"
  let ?hdr = "\<lparr>MessageLength = 37, RequestID = 1, ResponseTo = 7, OpCode = OpCodeMsg\<rparr>"
  have a1: "mode ?c = DiffNormalMode" and a2: "proxy ?c"
    by (simp_all add: example_conn_def)
  have a3: "read ?e = ReadOk ?rq ?rb"
    by (simp add: exchange_def command_request_def)
  have a4: "route ?c (new_state ()) ?rq ?rb =
              ([EvHandler ''ping'' (document_msg (command_document ''ping''))],
               Ok ((?hdr, Some (BodyMsg (document_msg ok_document)), False),
                   \<lparr>lastRequestID = 1, h = ()\<rparr>))"
    by (simp add: run_defs example_defs)
  have a5: ?l1
    by (simp add: run_defs example_defs)
  have a6: "proxy_route ?e =
              (Some \<lparr>MessageLength = 37, RequestID = 900, ResponseTo = 7, OpCode = OpCodeMsg\<rparr>,
               Some (BodyMsg (document_msg ?down)))"
    by (simp add: exchange_def upstream_reply_def)
  have a7: ?l2
    by (simp add: run_defs example_defs)
  have a8: "diff_header_err ?e = None" and a9: "diff_body_err ?e = None"
    by (simp_all add: exchange_def)
  from diff_normal_level [OF a1 a2 a3 a4 a5 a6 a7 a8 a9]
  have "written (fst ?it) = ?frames" "diff_levels (fst ?it) = [WarnLevel]"
    by auto
  with a5 a7 show ?thesis by blast
qed

text \<open>
  Two responses that both succeed and differ in their bodies: the diff is logged, but
  not at the warning level. Two responses that are the same CommandNotFound error, header
  and body: the diff is logged at the warning level, not at the debug level.
\<close>

theorem diff_level_counterexample:
  "written (fst (iteration (example_conn DiffNormalMode) (new_state ())
      (exchange (command_request 7 ''ping'')
         (upstream_reply 7
            \<lparr>doc_fields = [(''ok'', VDouble 1), (''n'', VInt32 1)], frozen = False\<rparr>)))) =
     [(\<lparr>MessageLength = 37, RequestID = 1, ResponseTo = 7, OpCode = OpCodeMsg\<rparr>,
       BodyMsg (document_msg \<lparr>doc_fields = [(''ok'', VDouble 1)], frozen = False\<rparr>))] \<and>
   upstream_reply 7 \<lparr>doc_fields = [(''ok'', VDouble 1), (''n'', VInt32 1)], frozen = False\<rparr> =
     (Some \<lparr>MessageLength = 37, RequestID = 900, ResponseTo = 7, OpCode = OpCodeMsg\<rparr>,
      Some (BodyMsg (document_msg
              \<lparr>doc_fields = [(''ok'', VDouble 1), (''n'', VInt32 1)], frozen = False\<rparr>))) \<and>
   document_msg \<lparr>doc_fields = [(''ok'', VDouble 1)], frozen = False\<rparr> \<noteq>
     document_msg \<lparr>doc_fields = [(''ok'', VDouble 1), (''n'', VInt32 1)], frozen = False\<rparr> \<and>
   diff_levels (fst (iteration (example_conn DiffNormalMode) (new_state ())
      (exchange (command_request 7 ''ping'')
         (upstream_reply 7
            \<lparr>doc_fields = [(''ok'', VDouble 1), (''n'', VInt32 1)], frozen = False\<rparr>)))) =
     [InfoLevel] \<and>
   InfoLevel \<noteq> WarnLevel \<and>
   written (fst (iteration (example_conn DiffNormalMode) (new_state ())
      (exchange (command_request 7 ''noSuchCmd'')
         (Some \<lparr>MessageLength = 37, RequestID = 1, ResponseTo = 7, OpCode = OpCodeMsg\<rparr>,
          Some (BodyMsg (error_OpMsg (CommandError ErrCommandNotFound
                                        (no_such_command ''noSuchCmd'')))))))) =
     [(\<lparr>MessageLength = 37, RequestID = 1, ResponseTo = 7, OpCode = OpCodeMsg\<rparr>,
       BodyMsg (error_OpMsg (CommandError ErrCommandNotFound
                               (no_such_command ''noSuchCmd''))))] \<and>
   diff_levels (fst (iteration (example_conn DiffNormalMode) (new_state ())
      (exchange (command_request 7 ''noSuchCmd'')
         (Some \<lparr>MessageLength = 37, RequestID = 1, ResponseTo = 7, OpCode = OpCodeMsg\<rparr>,
          Some (BodyMsg (error_OpMsg (CommandError ErrCommandNotFound
                                        (no_such_command ''noSuchCmd'')))))))) =
     [WarnLevel] \<and>
   WarnLevel \<noteq> DebugLevel"
  by (simp add: run_defs example_defs)

subsection \<open>The request ids of the responses\<close>

lemma serve_written_le1: "length (written (fst (serve c s e rq rb))) \<le> 1"
  by (auto simp: serve_def written_then_do send_step_def split: ctl.splits prod.splits option.splits)

lemma serve_Ok:
  assumes "snd (serve c s e rq rb) = Ok s'"
  shows "\<exists>ph pb rh rbody l.
           snd (route_step c s rq rb) = Ok ((rh, rbody, False), l, s') \<and>
           snd (send_step c e rh rbody ph pb) = Ok ()"
  using assms
  by (auto simp: serve_def snd_then_do split: ctl.splits prod.splits if_splits)

lemma serve_Ok_local:
  assumes m: "mode c = NormalMode \<or> mode c = DiffNormalMode"
    and ok: "snd (serve c s e rq rb) = Ok s'"
  shows "\<exists>evs hdr body. route c s rq rb = (evs, Ok ((hdr, Some body, False), s')) \<and>
           written (fst (serve c s e rq rb)) \<noteq> []"
proof -
  from serve_Ok [OF ok] obtain ph pb rh rbody l where
    R: "snd (route_step c s rq rb) = Ok ((rh, rbody, False), l, s')" and
    S: "snd (send_step c e rh rbody ph pb) = Ok ()"
    by blast
  from m have np: "mode c \<noteq> ProxyMode" by auto
  from route_step_local [OF np R] obtain evs hdr where
    rh: "rh = Some hdr" and rt: "route c s rq rb = (evs, Ok ((hdr, rbody, False), s'))"
    by blast
  from m S rh obtain body where rb: "rbody = Some body"
    by (auto simp: send_step_def split: option.splits)
  have "written (fst (serve c s e rq rb)) \<noteq> []"
  proof
    assume "written (fst (serve c s e rq rb)) = []"
    moreover have "snd (serve c s e rq rb) = Ok s'" by (rule ok)
    ultimately show False
      using m
      by (auto simp: serve_def written_then_do snd_then_do send_step_def
          split: ctl.splits prod.splits option.splits if_splits)
  qed
  with rt rb show ?thesis by blast
qed


lemma written_singleton:
  assumes "length xs \<le> 1" and "xs \<noteq> []"
  shows "\<exists>x. xs = [x]"
  using assms by (cases xs) auto

lemma iteration_written_le1: "length (written (fst (iteration c s e))) \<le> 1"
proof (cases "read e")
  case (ReadOk rq rb)
  then show ?thesis
    using serve_written_le1 [of c s e rq rb] by (simp add: iteration_def)
next
  case (ReadFailed rqo err)
  then show ?thesis
    by (auto simp: iteration_def validation_response_def written_then_do
        split: error.splits sum.splits option.splits ctl.splits)
qed

lemma iteration_Ok:
  assumes m: "mode c = NormalMode \<or> mode c = DiffNormalMode"
    and ok: "snd (iteration c s e) = Ok s'"
  shows "written (fst (iteration c s e)) \<noteq> [] \<and> lastRequestID s' = lastRequestID s + 1"
proof (cases "read e")
  case (ReadOk rq rb)
  then have it: "iteration c s e = serve c s e rq rb"
    by (simp add: iteration_def)
  from serve_Ok_local [OF m ok [unfolded it]] obtain evs hdr body where
    "route c s rq rb = (evs, Ok ((hdr, Some body, False), s'))"
    "written (fst (serve c s e rq rb)) \<noteq> []"
    by blast
  with route_normal [of c s rq rb evs hdr "Some body" s'] show ?thesis
    unfolding it by auto
next
  case (ReadFailed rqo err)
  with ok show ?thesis
    by (auto simp: iteration_def validation_response_def written_then_do snd_then_do
        split: error.splits sum.splits option.splits ctl.splits)
qed

lemma iteration_ids:
  assumes m: "mode c = NormalMode \<or> mode c = DiffNormalMode" and r: "reply_or_error c"
  shows "(response_ids (fst (iteration c s e)) = [] \<or>
          response_ids (fst (iteration c s e)) = [lastRequestID s + 1]) \<and>
         (\<forall>s'. snd (iteration c s e) = Ok s' \<longrightarrow>
            response_ids (fst (iteration c s e)) = [lastRequestID s + 1] \<and>
            lastRequestID s' = lastRequestID s + 1)"
proof -
  have one: "response_ids (fst (iteration c s e)) = [lastRequestID s + 1]"
    if "written (fst (iteration c s e)) \<noteq> []"
  proof -
    from written_singleton [OF iteration_written_le1 that] obtain hdr body where
      w: "written (fst (iteration c s e)) = [(hdr, body)]"
      by auto
    then have "(hdr, body) \<in> set (written (fst (iteration c s e)))"
      by simp
    from iteration_frame [OF this r] m have "RequestID hdr = lastRequestID s + 1"
      by blast
    with w show ?thesis
      by (simp add: response_ids_def)
  qed
  have "response_ids (fst (iteration c s e)) = [] \<or>
        response_ids (fst (iteration c s e)) = [lastRequestID s + 1]"
    using one by (cases "written (fst (iteration c s e)) = []") (simp_all add: response_ids_def)
  moreover have "response_ids (fst (iteration c s e)) = [lastRequestID s + 1] \<and>
                 lastRequestID s' = lastRequestID s + 1"
    if "snd (iteration c s e) = Ok s'" for s'
    using iteration_Ok [OF m that] one by simp
  ultimately show ?thesis by blast
qed

lemma response_ids_append [simp]: "response_ids (a @ b) = response_ids a @ response_ids b"
  by (simp add: response_ids_def)

lemma consecutive_Cons:
  "(x + 1) # map (\<lambda>k. (x + 1) + of_nat k) [1..<Suc n] =
   map (\<lambda>k. x + of_nat k) [1..<Suc (Suc n)]" for x :: int32
proof -
  have "[1..<Suc (Suc n)] = 1 # map Suc [1..<Suc n]"
    by (simp add: map_Suc_upt upt_conv_Cons del: upt_Suc)
  then show ?thesis
    by (simp add: comp_def add.assoc del: upt_Suc)
qed

lemma run_ids:
  assumes m: "mode c = NormalMode \<or> mode c = DiffNormalMode" and r: "reply_or_error c"
  shows "response_ids (fst (run c s es)) =
           map (\<lambda>k. lastRequestID s + of_nat k)
             [1..<Suc (length (response_ids (fst (run c s es))))]"
proof (induction es arbitrary: s)
  case Nil
  show ?case by (simp add: response_ids_def)
next
  case (Cons e es)
  note ids = iteration_ids [OF m r, of s e]
  show ?case
  proof (cases "snd (iteration c s e)")
    case (Ok s')
    with ids have i: "response_ids (fst (iteration c s e)) = [lastRequestID s + 1]"
      and l: "lastRequestID s' = lastRequestID s + 1"
      by simp_all
    have rn: "fst (run c s (e # es)) = fst (iteration c s e) @ fst (run c s' es)"
      using Ok by (cases "iteration c s e") (simp split: prod.splits)
    let ?n = "length (response_ids (fst (run c s' es)))"
    have len: "length (response_ids (fst (run c s (e # es)))) = Suc ?n"
      unfolding rn by (simp add: i)
    have "response_ids (fst (run c s (e # es))) =
            (lastRequestID s + 1) # response_ids (fst (run c s' es))"
      unfolding rn by (simp add: i)
    also have "response_ids (fst (run c s' es)) =
                 map (\<lambda>k. (lastRequestID s + 1) + of_nat k) [1..<Suc ?n]"
      using Cons.IH [of s'] unfolding l .
    also have "(lastRequestID s + 1) #
                 map (\<lambda>k. (lastRequestID s + 1) + of_nat k) [1..<Suc ?n] =
               map (\<lambda>k. lastRequestID s + of_nat k) [1..<Suc (Suc ?n)]"
      by (rule consecutive_Cons)
    finally show ?thesis
      unfolding len .
  next
    case (Panic p)
    then have "response_ids (fst (run c s (e # es))) = response_ids (fst (iteration c s e))"
      by (cases "iteration c s e") (simp add: response_ids_def)
    with ids show ?thesis by auto
  next
    case (Return err)
    then have "response_ids (fst (run c s (e # es))) = response_ids (fst (iteration c s e))"
      by (cases "iteration c s e") (simp add: response_ids_def)
    with ids show ?thesis by auto
  qed
qed

lemma sorted_small_ids:
  assumes "m \<le> 2 ^ 31"
  shows "sorted_wrt (<) (map sint (map (of_nat :: nat \<Rightarrow> int32) [1..<m]))"
proof -
  have "sorted_wrt (\<lambda>x y. sint (of_nat x :: int32) < sint (of_nat y :: int32)) [1..<m]"
  proof (rule sorted_wrt_mono_rel [of _ "(<)"])
    fix x y
    assume "x \<in> set [1..<m]" and "y \<in> set [1..<m]" and "x < y"
    with assms show "sint (of_nat x :: int32) < sint (of_nat y :: int32)"
      by (simp add: sint_of_nat_small)
  next
    show "sorted_wrt (<) [1..<m]" by simp
  qed
  then show ?thesis
    by (simp add: sorted_wrt_map)
qed

lemma distinct_small_ids:
  assumes "m \<le> 2 ^ 31"
  shows "distinct (map (of_nat :: nat \<Rightarrow> int32) [1..<m])"
proof -
  have "distinct (map sint (map (of_nat :: nat \<Rightarrow> int32) [1..<m]))"
    using sorted_small_ids [OF assms] strict_sorted_iff by blast
  then show ?thesis
    by (rule distinct_map [THEN iffD1, THEN conjunct1])
qed

text \<open>
  C4, as the code has it. In the normal and diff-normal modes the frames of a run from a
  new connection carry the request ids 1, 2, 3, ... as int32 values: the k-th frame
  carries the int32 of k, from the one counter that \<^verbatim>\<open>route\<close> and the validation path
  increment. While fewer than \<open>2 ^ 31\<close> responses have been sent these ids are strictly
  increasing as signed numbers, and distinct.
\<close>

theorem response_ids_increasing:
  assumes "mode c = NormalMode \<or> mode c = DiffNormalMode" and "reply_or_error c"
  shows "response_ids (fst (run c (new_state hs) es)) =
           map of_nat [1..<Suc (length (response_ids (fst (run c (new_state hs) es))))] \<and>
         (length (response_ids (fst (run c (new_state hs) es))) < 2 ^ 31 \<longrightarrow>
            sorted_wrt (<) (map sint (response_ids (fst (run c (new_state hs) es)))) \<and>
            distinct (response_ids (fst (run c (new_state hs) es))))"
proof -
  let ?ids = "response_ids (fst (run c (new_state hs) es))"
  have ids: "?ids = map of_nat [1..<Suc (length ?ids)]"
    using run_ids [OF assms, of "new_state hs" es] by (simp add: new_state_def del: upt_Suc)
  have "sorted_wrt (<) (map sint ?ids) \<and> distinct ?ids" if "length ?ids < 2 ^ 31"
  proof -
    from that have "Suc (length ?ids) \<le> 2 ^ 31" by simp
    from sorted_small_ids [OF this] distinct_small_ids [OF this] ids show ?thesis
      by metis
  qed
  with ids show ?thesis by blast
qed


theorem response_ids_increasing_witness:
  "reply_or_error (example_conn NormalMode) \<and>
   response_ids (fst (run (example_conn NormalMode) (new_state ())
     [exchange (ReadFailed (Some (request_header 9 OpCodeMsg))
                  (ValidationError (ErrOtherCode 2 ''BadValue'') ''bad section''))
        no_upstream,
      exchange (command_request 10 ''ping'') no_upstream,
      exchange (command_request 11 ''noSuchCmd'') no_upstream])) = [1, 2, 3] \<and>
   sorted_wrt (<) (map sint [1, 2, 3 :: int32]) \<and> distinct [1, 2, 3 :: int32]"
  (is "?r \<and> response_ids (fst ?run) = [1, 2, 3] \<and> ?s \<and> ?d")
proof -
  have m: "mode (example_conn NormalMode) = NormalMode \<or>
           mode (example_conn NormalMode) = DiffNormalMode"
    by (simp add: example_conn_def)
  have r: ?r
    by (rule example_reply_or_error)
  have ids: "response_ids (fst ?run) = [1, 2, 3]"
    by (simp add: run_defs example_defs response_ids_def)
  from response_ids_increasing [OF m r, of "()"] have
    "length (response_ids (fst ?run)) < 2 ^ 31 \<longrightarrow>
       sorted_wrt (<) (map sint (response_ids (fst ?run))) \<and> distinct (response_ids (fst ?run))"
    by blast
  then have "sorted_wrt (<) (map sint [1, 2, 3 :: int32]) \<and> distinct [1, 2, 3 :: int32]"
    unfolding ids by simp
  with r ids show ?thesis by blast
qed

text \<open>
  The counter is an int32: after \<open>2 ^ 31 - 1\<close> responses on one connection the next
  request id is \<open>- 2 ^ 31\<close>, below the one before it.
\<close>

lemma ping_iteration:
  "response_ids (fst (iteration (example_conn NormalMode) s
                        (exchange (command_request rid ''ping'') no_upstream))) =
     [lastRequestID s + 1] \<and>
   snd (iteration (example_conn NormalMode) s
          (exchange (command_request rid ''ping'') no_upstream)) =
     Ok (s\<lparr>lastRequestID := lastRequestID s + 1\<rparr>)"
  by (simp add: run_defs example_defs response_ids_def)

lemma run_Cons_Ok:
  assumes "snd (iteration c s e) = Ok s'"
  shows "run c s (e # es) = (fst (iteration c s e) @ fst (run c s' es), snd (run c s' es))"
  using assms by (cases "iteration c s e") (simp split: prod.splits)

lemma ping_run_length:
  "length (response_ids (fst (run (example_conn NormalMode) s
      (replicate n (exchange (command_request rid ''ping'') no_upstream))))) = n"
proof (induction n arbitrary: s)
  case 0
  show ?case by (simp add: response_ids_def)
next
  case (Suc n)
  let ?e = "exchange (command_request rid ''ping'') no_upstream"
  let ?s' = "s\<lparr>lastRequestID := lastRequestID s + 1\<rparr>"
  from ping_iteration [of s rid] have
    ok: "snd (iteration (example_conn NormalMode) s ?e) = Ok ?s'" and
    one: "response_ids (fst (iteration (example_conn NormalMode) s ?e)) = [lastRequestID s + 1]"
    by simp_all
  have "run (example_conn NormalMode) s (replicate (Suc n) ?e) =
          (fst (iteration (example_conn NormalMode) s ?e) @
             fst (run (example_conn NormalMode) ?s' (replicate n ?e)),
           snd (run (example_conn NormalMode) ?s' (replicate n ?e)))"
    using run_Cons_Ok [OF ok] by simp
  then show ?case
    using Suc.IH [of ?s'] one by simp
qed

lemma ping_run_ids:
  "response_ids (fst (run (example_conn NormalMode) (new_state ())
      (replicate n (exchange (command_request rid ''ping'') no_upstream)))) =
   map of_nat [1..<Suc n]"
proof -
  have m: "mode (example_conn NormalMode) = NormalMode \<or>
           mode (example_conn NormalMode) = DiffNormalMode"
    by (simp add: example_conn_def)
  have z: "lastRequestID (new_state ()) = 0"
    by (simp add: new_state_def)
  show ?thesis
    using run_ids [OF m example_reply_or_error, of "new_state ()"
        "replicate n (exchange (command_request rid ''ping'') no_upstream)"]
    unfolding ping_run_length z by simp
qed

theorem response_ids_wrap_counterexample:
  "sint (response_ids (fst (run (example_conn NormalMode) (new_state ())
           (replicate (2 ^ 31) (exchange (command_request 7 ''ping'') no_upstream)))) !
         2147483646) = 2147483647 \<and>
   sint (response_ids (fst (run (example_conn NormalMode) (new_state ())
           (replicate (2 ^ 31) (exchange (command_request 7 ''ping'') no_upstream)))) !
         2147483647) = - 2147483648 \<and>
   \<not> sorted_wrt (<)
       (map sint (response_ids (fst (run (example_conn NormalMode) (new_state ())
          (replicate (2 ^ 31) (exchange (command_request 7 ''ping'') no_upstream))))))"
proof -
  let ?ids = "response_ids (fst (run (example_conn NormalMode) (new_state ())
                (replicate (2 ^ 31) (exchange (command_request 7 ''ping'') no_upstream))))"
  have ids: "?ids = map of_nat [1..<Suc (2 ^ 31)]"
    by (rule ping_run_ids)
  have a: "sint (?ids ! 2147483646) = 2147483647"
    unfolding ids by (simp del: upt_Suc)
  have b: "sint (?ids ! 2147483647) = - 2147483648"
    unfolding ids by (simp del: upt_Suc)
  have "\<not> sorted_wrt (<) (map sint ?ids)"
  proof
    assume "sorted_wrt (<) (map sint ?ids)"
    moreover have "(2147483646 :: nat) < 2147483647" by simp
    moreover have "2147483647 < length (map sint ?ids)"
      unfolding ids by simp
    ultimately have "map sint ?ids ! 2147483646 < map sint ?ids ! 2147483647"
      by (rule sorted_wrt_nth_less)
    moreover have "length ?ids = 2147483648"
      unfolding ids by simp
    ultimately show False
      using a b by simp
  qed
  with a b show ?thesis by blast
qed

section \<open>Properties of the collection contract\<close>

lemma Freeze_frozen: "frozen (Freeze st r r)"
  by (simp add: Freeze_def)

lemma Freeze_keeps: "frozen (st r) \<Longrightarrow> frozen (Freeze st r' r)"
  by (simp add: Freeze_def)

lemma freeze_all_keeps: "frozen (st r) \<Longrightarrow> frozen (freeze_all st docs r)"
  by (induction docs arbitrary: st) (simp_all add: Freeze_keeps)

lemma freeze_all_frozen: "r \<in> set docs \<Longrightarrow> frozen (freeze_all st docs r)"
proof (induction docs arbitrary: st)
  case Nil
  then show ?case by simp
next
  case (Cons doc docs)
  show ?case
  proof (cases "r = doc")
    case True
    then show ?thesis by (simp add: freeze_all_keeps Freeze_frozen)
  next
    case False
    with Cons show ?thesis by simp
  qed
qed

lemma check_InsertAll_store: "snd (snd (check_InsertAll r)) = snd (snd r)"
  by (cases r) (auto simp: check_InsertAll_def)

text \<open>
  C9. The implementation is called on a store in which every document of
  \<^verbatim>\<open>params.Docs\<close> is frozen; and, as no implementation unfreezes a document, every one of
  them is frozen in the store that \<^verbatim>\<open>InsertAll\<close> leaves, whether the implementation
  returned a result, an error, or an error that makes the check panic.
\<close>

theorem InsertAll_freezes:
  "InsertAll impl b st params = check_InsertAll (impl b (freeze_all st (Docs params)) params) \<and>
   (\<forall>r \<in> set (Docs params). frozen (freeze_all st (Docs params) r)) \<and>
   (keeps_frozen impl \<longrightarrow>
      (\<forall>r \<in> set (Docs params). frozen (snd (snd (InsertAll impl b st params)) r)))"
proof -
  have call: "\<forall>r \<in> set (Docs params). frozen (freeze_all st (Docs params) r)"
    by (simp add: freeze_all_frozen)
  have after: "frozen (snd (snd (InsertAll impl b st params)) r)"
    if k: "keeps_frozen impl" and r: "r \<in> set (Docs params)" for r
  proof -
    from r have "frozen (freeze_all st (Docs params) r)"
      by (rule freeze_all_frozen)
    with k have "frozen (snd (snd (impl b (freeze_all st (Docs params)) params)) r)"
      unfolding keeps_frozen_def by blast
    then show ?thesis
      by (simp add: InsertAll_def check_InsertAll_store)
  qed
  show ?thesis
    using call after by (simp add: InsertAll_def)
qed

theorem InsertAll_freezes_witness:
  "keeps_frozen rejecting_impl \<and>
   \<not> frozen (example_store 1) \<and> \<not> frozen (example_store 2) \<and>
   fst (InsertAll rejecting_impl () example_store \<lparr>Docs = [1, 2, 1]\<rparr>) =
     Ok (None, Some (BackendError ErrorCodeInsertDuplicateID)) \<and>
   frozen (snd (snd (InsertAll rejecting_impl () example_store \<lparr>Docs = [1, 2, 1]\<rparr>)) 1) \<and>
   frozen (snd (snd (InsertAll rejecting_impl () example_store \<lparr>Docs = [1, 2, 1]\<rparr>)) 2)"
proof -
  have k: "keeps_frozen rejecting_impl"
    by (simp add: keeps_frozen_def rejecting_impl_def)
  have r: "fst (InsertAll rejecting_impl () example_store \<lparr>Docs = [1, 2, 1]\<rparr>) =
             Ok (None, Some (BackendError ErrorCodeInsertDuplicateID))"
    by (simp add: InsertAll_def rejecting_impl_def check_InsertAll_def checkError_def)
  have "\<forall>r \<in> set (Docs \<lparr>Docs = [1, 2, 1]\<rparr>).
          frozen (snd (snd (InsertAll rejecting_impl () example_store \<lparr>Docs = [1, 2, 1]\<rparr>)) r)"
    using k InsertAll_freezes [of rejecting_impl "()" example_store "\<lparr>Docs = [1, 2, 1]\<rparr>"]
    by blast
  then have f:
    "frozen (snd (snd (InsertAll rejecting_impl () example_store \<lparr>Docs = [1, 2, 1]\<rparr>)) 1)"
    "frozen (snd (snd (InsertAll rejecting_impl () example_store \<lparr>Docs = [1, 2, 1]\<rparr>)) 2)"
    by simp_all
  have u: "\<not> frozen (example_store 1)" "\<not> frozen (example_store 2)"
    by (simp_all add: example_store_def)
  show ?thesis
    using k r f u by blast
qed

end
